theory Spec2Isabelle
  imports Complex_Main "HOL-Library.Multiset"
begin

section \<open>Conventions of the embedding\<close>

text \<open>
  The embedded functions are those of \<^verbatim>\<open>src/eso/eris_jhchen_utils.py\<close>:
  \<^verbatim>\<open>compute_eris_offset\<close>, \<^verbatim>\<open>read_eris_drifts\<close>, \<^verbatim>\<open>find_combined_wcs\<close>,
  \<^verbatim>\<open>data_combine\<close> and \<^verbatim>\<open>fill_mask\<close>.

  \<^item> Python and numpy floats are modelled by \<open>real\<close>: rounding error, overflow and
    infinities are outside the model. The one float value the code itself relies on,
    NaN, is modelled where the code uses it (\<open>fill_mask\<close>): a cell is a
    \<open>real option\<close> and \<open>None\<close> is NaN.
  \<^item> Every \<^verbatim>\<open>raise\<close> and every Python exception the modelled lines can throw is a
    value \<open>Inl e\<close> of the sum type \<open>error + 'a\<close>.
  \<^item> Calls into astropy and reproject (coordinate conversion, sigma clipping,
    reprojection) are parameters of the model: their code is not part of the repository.
\<close>

datatype error =
    ValueError string
  | IndexError
  | KeyError string
  | NameError string
  | AxisError
  | ZeroDivisionError

section \<open>FITS files as the functions read them\<close>

text \<open>
  A FITS header is a map from card names to values. Only numeric cards of the
  \<^verbatim>\<open>DATA\<close> extension are looked up by name in the modelled code (\<^verbatim>\<open>CD1_1\<close>, ...),
  so the map is to \<open>real\<close>; reading a missing card raises \<^verbatim>\<open>KeyError\<close>.
\<close>

type_synonym fits_header = "string \<rightharpoonup> real"

definition header_get :: "fits_header \<Rightarrow> string \<Rightarrow> error + real" where
  "header_get h k = (case h k of None \<Rightarrow> Inl (KeyError k) | Some v \<Rightarrow> Inr v)"

text \<open>
  An \<^verbatim>\<open>astropy.wcs.WCS\<close> object, reduced to the attributes \<^verbatim>\<open>find_combined_wcs\<close> reads or
  writes. \<^verbatim>\<open>wcs.cd\<close> and \<^verbatim>\<open>wcs.pc\<close> raise \<^verbatim>\<open>AttributeError\<close> when the header has no such
  matrix: that is \<open>None\<close>. \<open>array_shape\<close> is ordered \<open>[size_chan,] size_y, size_x\<close>.
\<close>

record wcs =
  naxis :: nat
  crpix :: "real list"
  crval :: "real list"
  cd :: "real list list option"
  pc :: "real list list option"
  array_shape :: "int list"

text \<open>
  One reduced exposure on disk, as \<^verbatim>\<open>fits.open\<close>, \<^verbatim>\<open>fits.getdata\<close> and \<^verbatim>\<open>WCS(header)\<close>
  give it to the modelled functions:
  \<^item> \<^verbatim>\<open>ARCFILE\<close> and the two cumulative telescope offsets
    (\<^verbatim>\<open>HIERARCH ESO OCS CUMOFFS RA/DEC\<close>) of the primary header; every ERIS product has
    them, so they are fields;
  \<^item> the header of the \<^verbatim>\<open>DATA\<close> extension and the \<^verbatim>\<open>WCS\<close> object astropy builds from it;
  \<^item> the arrays of the \<^verbatim>\<open>DATA\<close> and \<^verbatim>\<open>DQI\<close> extensions. An array is its shape and a
    function from multi-indices to cells; only the cells inside the shape mean anything.
    The two extensions of one pipeline product have the same shape, so the record has
    one shape for both.
\<close>

record fits_file =
  ARCFILE :: string
  CUMOFFS_RA :: real
  CUMOFFS_DEC :: real
  data_header :: fits_header
  file_wcs :: wcs
  data_shape :: "nat list"
  DATA :: "nat list \<Rightarrow> real"
  DQI :: "nat list \<Rightarrow> int"

section \<open>The offset estimator\<close>

text \<open>
  One row of the drift table (\<^verbatim>\<open>table.Table.read(datfile, format='csv')\<close>): the columns
  \<^verbatim>\<open>ARCFILE\<close>, \<^verbatim>\<open>x_model\<close> and \<^verbatim>\<open>y_model\<close>.
\<close>

record drift_row =
  row_ARCFILE :: string
  x_model :: real
  y_model :: real

text \<open>
  \<^verbatim>\<open>
  def read_eris_drifts(datfile, arcfilenames):
      pixel_center = [32., 32.] # the expected center
      dat = table.Table.read(datfile, format='csv')
      drifts = np.zeros((len(arcfilenames), 2)) # drift in [x, y]
      for i in range(len(arcfilenames)):
          arcfile = arcfilenames[i]
          dat_img = dat[dat['ARCFILE'] == arcfile]
          if len(dat_img) == 1:
              drifts[i] = [dat_img['x_model'][0]-pixel_center[0], dat_img['y_model'][0]-pixel_center[1]]
          else:
              print("Drifts not found!")
              drifts[i] = [0.,0.]
      return drifts
  \<close>
  The model returns the drifts together with the lines printed.
\<close>

definition pixel_center :: "real \<times> real" where
  "pixel_center = (32, 32)"

definition drift_of :: "drift_row list \<Rightarrow> string \<Rightarrow> (real \<times> real) \<times> string list" where
  "drift_of dat arcfile =
     (let dat_img = filter (\<lambda>r. row_ARCFILE r = arcfile) dat in
      if length dat_img = 1
      then ((x_model (hd dat_img) - fst pixel_center, y_model (hd dat_img) - snd pixel_center), [])
      else ((0, 0), [''Drifts not found!'']))"

fun read_eris_drifts :: "drift_row list \<Rightarrow> string list \<Rightarrow> (real \<times> real) list \<times> string list" where
  "read_eris_drifts dat [] = ([], [])"
| "read_eris_drifts dat (arcfile # rest) =
     (case drift_of dat arcfile of (d, out) \<Rightarrow>
      case read_eris_drifts dat rest of (ds, outs) \<Rightarrow> (d # ds, out @ outs))"

text \<open>
  The argument \<^verbatim>\<open>additional_drifts\<close>: a literal array with one \<open>(x, y)\<close> row per
  exposure, or the name of a drift table (modelled by the table's rows).
\<close>

datatype drifts_arg = DriftArray "(real \<times> real) list" | DriftTable "drift_row list"

text \<open>
  The loop of \<^verbatim>\<open>compute_eris_offset\<close>:
  \<^verbatim>\<open>
  for i, img in enumerate(image_list):
      with fits.open(img) as hdu:
          header = hdu[header_ext].header
          data_header = hdu[header_ext_data].header
          arcfilenames.append(header['ARCFILE'])
          ra_offset = header[ra_offset_header]
          dec_offset = header[dec_offset_header]
          ra_diff = abs(data_header['CD1_1']*3600.)
          dec_diff = abs(data_header['CD2_2']*3600.)
          if i == 0:
              ra_offset_0 = ra_offset
              dec_offset_0 = dec_offset
              ...
          array_offset[i][:] = (ra_offset-ra_offset_0)/ra_diff, (dec_offset-dec_offset_0)/dec_diff
  \<close>
  The header values are Python floats, so a zero pixel scale raises
  \<^verbatim>\<open>ZeroDivisionError\<close>. \<open>ra_offset_0\<close> and \<open>dec_offset_0\<close> are the offsets of the
  first file, passed down the recursion.
\<close>

definition ocs_offset :: "real \<Rightarrow> real \<Rightarrow> fits_file \<Rightarrow> error + (real \<times> real)" where
  "ocs_offset ra_offset_0 dec_offset_0 img =
     (case header_get (data_header img) ''CD1_1'' of
        Inl e \<Rightarrow> Inl e
      | Inr cd1_1 \<Rightarrow>
     (case header_get (data_header img) ''CD2_2'' of
        Inl e \<Rightarrow> Inl e
      | Inr cd2_2 \<Rightarrow>
        let ra_diff = \<bar>cd1_1 * 3600\<bar>; dec_diff = \<bar>cd2_2 * 3600\<bar> in
        if ra_diff = 0 \<or> dec_diff = 0 then Inl ZeroDivisionError
        else Inr ((CUMOFFS_RA img - ra_offset_0) / ra_diff,
                  (CUMOFFS_DEC img - dec_offset_0) / dec_diff)))"

fun ocs_offsets :: "real \<Rightarrow> real \<Rightarrow> fits_file list \<Rightarrow> error + (real \<times> real) list" where
  "ocs_offsets ra_offset_0 dec_offset_0 [] = Inr []"
| "ocs_offsets ra_offset_0 dec_offset_0 (img # rest) =
     (case ocs_offset ra_offset_0 dec_offset_0 img of
        Inl e \<Rightarrow> Inl e
      | Inr off \<Rightarrow>
     (case ocs_offsets ra_offset_0 dec_offset_0 rest of
        Inl e \<Rightarrow> Inl e
      | Inr offs \<Rightarrow> Inr (off # offs)))"

text \<open>
  \<^verbatim>\<open>
  if additional_drifts is not None:
      if isinstance(additional_drifts, str):
          additional_drifts = read_eris_drifts(additional_drifts, arcfilenames)
      for i in range(nimage):
          array_offset[i] += additional_drifts[i]
  return array_offset
  \<close>
  A literal array shorter than the image list raises \<^verbatim>\<open>IndexError\<close>.
\<close>

definition add_drift :: "real \<times> real \<Rightarrow> real \<times> real \<Rightarrow> real \<times> real" where
  "add_drift off d = (fst off + fst d, snd off + snd d)"

definition compute_eris_offset ::
  "fits_file list \<Rightarrow> drifts_arg option \<Rightarrow> error + ((real \<times> real) list \<times> string list)" where
  "compute_eris_offset image_list additional_drifts =
     (case (case image_list of
              [] \<Rightarrow> Inr []
            | img0 # _ \<Rightarrow> ocs_offsets (CUMOFFS_RA img0) (CUMOFFS_DEC img0) image_list) of
        Inl e \<Rightarrow> Inl e
      | Inr array_offset \<Rightarrow>
     (case additional_drifts of
        None \<Rightarrow> Inr (array_offset, [])
      | Some arg \<Rightarrow>
          (case (case arg of
                   DriftArray a \<Rightarrow> (a, [])
                 | DriftTable dat \<Rightarrow> read_eris_drifts dat (map ARCFILE image_list)) of
             (drifts, out) \<Rightarrow>
               if length drifts < length image_list then Inl IndexError
               else Inr (map (\<lambda>i. add_drift (array_offset ! i) (drifts ! i))
                             [0..<length image_list], out))))"

text \<open>The pixel scale the loop divides by, per axis.\<close>

definition pixel_scale :: "fits_file \<Rightarrow> real \<times> real" where
  "pixel_scale img =
     (\<bar>the (data_header img ''CD1_1'') * 3600\<bar>, \<bar>the (data_header img ''CD2_2'') * 3600\<bar>)"

definition ocs_shift :: "fits_file list \<Rightarrow> nat \<Rightarrow> real \<times> real" where
  "ocs_shift image_list i =
     ((CUMOFFS_RA (image_list ! i) - CUMOFFS_RA (image_list ! 0)) / fst (pixel_scale (image_list ! i)),
      (CUMOFFS_DEC (image_list ! i) - CUMOFFS_DEC (image_list ! 0)) / snd (pixel_scale (image_list ! i)))"

text \<open>The drift the table gives one archive identifier.\<close>

definition table_drift :: "drift_row list \<Rightarrow> string \<Rightarrow> real \<times> real" where
  "table_drift dat arcfile = fst (drift_of dat arcfile)"

text \<open>An exposure whose \<^verbatim>\<open>DATA\<close> header gives a non-zero pixel scale on both axes.\<close>

definition has_pixel_scale :: "fits_file \<Rightarrow> bool" where
  "has_pixel_scale img =
     (case data_header img ''CD1_1'' of
        None \<Rightarrow> False
      | Some cd1_1 \<Rightarrow>
     (case data_header img ''CD2_2'' of
        None \<Rightarrow> False
      | Some cd2_2 \<Rightarrow> cd1_1 \<noteq> 0 \<and> cd2_2 \<noteq> 0))"

section \<open>The combined-frame solver\<close>

text \<open>
  The two functions of \<^verbatim>\<open>astropy.wcs.utils\<close> that \<^verbatim>\<open>find_combined_wcs\<close> calls are
  parameters: \<open>pixel_to_pixel w_in w_out p\<close> converts the pixel coordinates \<open>p\<close>
  (ordered \<open>x, y[, chan]\<close>) of \<open>w_in\<close> to pixel coordinates of \<open>w_out\<close>, and
  \<open>pixel_to_skycoord x y w\<close> gives the sky position \<open>(ra, dec)\<close> in degrees of a pixel.
  (\<^verbatim>\<open>proj_plane_pixel_scales\<close> is called too, but its result, \<^verbatim>\<open>resolutions\<close>, is never
  read.)
\<close>

record wcs_utils =
  pixel_to_pixel :: "wcs \<Rightarrow> wcs \<Rightarrow> real list \<Rightarrow> real list"
  pixel_to_skycoord :: "real \<Rightarrow> real \<Rightarrow> wcs \<Rightarrow> real \<times> real"

text \<open>
  \<^verbatim>\<open>np.round\<close> rounds to the nearest integer, a tie to the even one; \<^verbatim>\<open>.astype(int)\<close> then
  gives the integer.
\<close>

definition np_round :: "real \<Rightarrow> int" where
  "np_round x =
     (let f = \<lfloor>x\<rfloor>; d = x - of_int f in
      if d < 1 / 2 then f
      else if 1 / 2 < d then f + 1
      else if even f then f else f + 1)"

text \<open>\<^verbatim>\<open>np.min(corners, axis=0)\<close> and \<^verbatim>\<open>np.max(corners, axis=0)\<close>: the bounds of one column.\<close>

definition column :: "real list list \<Rightarrow> nat \<Rightarrow> real list" where
  "column corners k = map (\<lambda>c. c ! k) corners"

definition low_boundary :: "real list list \<Rightarrow> nat \<Rightarrow> real" where
  "low_boundary corners k = fold min (tl (column corners k)) (hd (column corners k))"

definition up_boundary :: "real list list \<Rightarrow> nat \<Rightarrow> real" where
  "up_boundary corners k = fold max (tl (column corners k)) (hd (column corners k))"

text \<open>
  \<^verbatim>\<open>
  ranges = np.round(up_boundaries - low_boundaries + 1).astype(int) # [range_x, range_y, range_chan]
  \<close>
  The array \<open>corners\<close> has as many columns as its rows have coordinates.
\<close>

definition ranges_of :: "real list list \<Rightarrow> int list" where
  "ranges_of corners =
     map (\<lambda>k. np_round (up_boundary corners k - low_boundary corners k + 1))
         [0..<length (hd corners)]"

text \<open>
  \<^verbatim>\<open>image_wcs.wcs.crpix -= pixel_shifts[i]\<close>: an in-place numpy subtraction, which
  broadcasts a row of one element and raises \<^verbatim>\<open>ValueError\<close> for any other row whose
  length is not that of \<open>crpix\<close>.
\<close>

definition shift_crpix :: "real list \<Rightarrow> real list \<Rightarrow> error + real list" where
  "shift_crpix c shift =
     (if length shift = length c then Inr (map2 (-) c shift)
      else if length shift = 1 then Inr (map (\<lambda>x. x - hd shift) c)
      else Inl (ValueError ''operands could not be broadcast together''))"

text \<open>
  WCS objects are mutable and shared: the caller's list holds references, \<open>first_wcs\<close>
  is the very object \<open>wcs_list[0]\<close>, and one object may stand at several positions of
  the list. So the solver runs on a store, a list of objects addressed by position, and
  \<open>wcs_list\<close> is a list of addresses. The solver returns the store as it leaves it.

  The loop over the mappings:
  \<^verbatim>\<open>
  for i,fi in enumerate(wcs_list):
          image_wcs = wcs_list[i]
          if pixel_shifts is not None:
              image_wcs.wcs.crpix -= pixel_shifts[i]
          array_shape = image_wcs.array_shape
          # get the skycoord of corner pixels
          for pixel_coord in corner_pixel_coords:
              # pixel order: [x, y, chan]
              corner = wcs_utils.pixel_to_pixel(image_wcs, first_wcs, *pixel_coord)
              corners.append(corner)
          resolutions.append(wcs_utils.proj_plane_pixel_scales(image_wcs))
  \<close>
  Each job is the address \<open>wcs_list[i]\<close> with the row \<open>pixel_shifts[i]\<close>, if any.
  \<open>array_shape\<close> is assigned and never read.
\<close>

fun corners_loop ::
  "wcs_utils \<Rightarrow> nat \<Rightarrow> real list list \<Rightarrow> (nat \<times> real list option) list \<Rightarrow> wcs list
   \<Rightarrow> wcs list \<times> (error + real list list)" where
  "corners_loop U first corner_pixel_coords [] store = (store, Inr [])"
| "corners_loop U first corner_pixel_coords ((r, sh) # jobs) store =
     (case (case sh of
              None \<Rightarrow> Inr store
            | Some shift \<Rightarrow>
                (case shift_crpix (crpix (store ! r)) shift of
                   Inl e \<Rightarrow> Inl e
                 | Inr c \<Rightarrow> Inr (store[r := (store ! r)\<lparr>crpix := c\<rparr>]))) of
        Inl e \<Rightarrow> (store, Inl e)
      | Inr store1 \<Rightarrow>
          (let here = map (pixel_to_pixel U (store1 ! r) (store1 ! first)) corner_pixel_coords in
           case corners_loop U first corner_pixel_coords jobs store1 of
             (store2, Inl e) \<Rightarrow> (store2, Inl e)
           | (store2, Inr cs) \<Rightarrow> (store2, Inr (here @ cs))))"

definition jobs_of :: "nat list \<Rightarrow> real list list option \<Rightarrow> (nat \<times> real list option) list" where
  "jobs_of wcs_list pixel_shifts =
     (case pixel_shifts of
        None \<Rightarrow> map (\<lambda>r. (r, None)) wcs_list
      | Some shifts \<Rightarrow> zip wcs_list (map Some shifts))"

text \<open>
  \<^verbatim>\<open>
  try: dchan = first_wcs.wcs.cd[-1,-1]
  except:
      try: dchan = first_wcs.wcs.pc[-1,-1]
      except:
          raise ValueError("Cannot read the step size of the spectral dimension!")
  \<close>
\<close>

definition spectral_step :: "wcs \<Rightarrow> error + real" where
  "spectral_step first_wcs =
     (case cd first_wcs of
        Some m \<Rightarrow> Inr (last (last m))
      | None \<Rightarrow>
     (case pc first_wcs of
        Some m \<Rightarrow> Inr (last (last m))
      | None \<Rightarrow> Inl (ValueError ''Cannot read the step size of the spectral dimension!'')))"

text \<open>
  From the corners to the combined mapping (lines 819 to 850):
  \<^verbatim>\<open>
  corners = np.array(corners)
  low_boundaries = np.min(corners, axis=0)
  up_boundaries = np.max(corners, axis=0)
  ranges = np.round(up_boundaries - low_boundaries + 1).astype(int) # [range_x, range_y, range_chan]
  chan0 = low_boundaries[0]
  x0, y0 = ranges[:2]*0.5 # only need the first two for x and y
  reference_skycoord = wcs_utils.pixel_to_skycoord(x0, y0, wcs=first_wcs)
  wcs_combined = first_wcs.deepcopy()
  if naxis == 3:
      ... dchan ...
      reference_chan = first_wcs.wcs.crval[-1] + (first_wcs.wcs.crpix[-1]-chan0-1)*dchan
      wcs_combined.wcs.crval = np.array([reference_skycoord.ra.to(units.deg).value,
                       reference_skycoord.dec.to(units.deg).value,
                       reference_chan])
      wcs_combined.wcs.crpix = np.array([x0, y0, 1])
  elif naxis == 2:
      wcs_combined.wcs.crval = np.array([reference_skycoord.ra.to(units.deg).value,
                                         reference_skycoord.dec.to(units.deg).value])
  wcs_combined.array_shape = tuple(ranges[::-1]) # need to reverse again
  \<close>
  \<open>chan0\<close> raises \<^verbatim>\<open>IndexError\<close> when the corners have no coordinate at all, and the
  unpacking of \<open>x0, y0\<close> raises \<^verbatim>\<open>ValueError\<close> when they have one only.
\<close>

definition combined_of_corners :: "wcs_utils \<Rightarrow> wcs \<Rightarrow> real list list \<Rightarrow> error + wcs" where
  "combined_of_corners U first_wcs corners =
     (let ranges = ranges_of corners in
      if ranges = [] then Inl IndexError
      else
        let chan0 = low_boundary corners 0 in
        if length ranges < 2 then Inl (ValueError ''not enough values to unpack'')
        else
          let x0 = real_of_int (ranges ! 0) * (1 / 2);
              y0 = real_of_int (ranges ! 1) * (1 / 2);
              reference_skycoord = pixel_to_skycoord U x0 y0 first_wcs
          in
          if naxis first_wcs = 3 then
            (case spectral_step first_wcs of
               Inl e \<Rightarrow> Inl e
             | Inr dchan \<Rightarrow>
                 let reference_chan =
                       last (crval first_wcs) + (last (crpix first_wcs) - chan0 - 1) * dchan
                 in Inr (first_wcs
                      \<lparr>crpix := [x0, y0, 1],
                       crval := [fst reference_skycoord, snd reference_skycoord, reference_chan],
                       array_shape := rev ranges\<rparr>))
          else if naxis first_wcs = 2 then
            Inr (first_wcs
                  \<lparr>crval := [fst reference_skycoord, snd reference_skycoord],
                   array_shape := rev ranges\<rparr>)
          else Inr (first_wcs\<lparr>array_shape := rev ranges\<rparr>))"

text \<open>
  \<^verbatim>\<open>find_combined_wcs(wcs_list=..., pixel_shifts=...)\<close>, lines 783 to 865. (With
  \<^verbatim>\<open>image_list\<close> instead, lines 775 to 781 first build a fresh \<open>wcs_list\<close> from the
  headers.) The result is the final store and either the error raised or the address
  of \<open>wcs_combined\<close>, a new object (\<^verbatim>\<open>first_wcs.deepcopy()\<close>) put at the end of the store.
  \<^verbatim>\<open>
  n_wcs = len(wcs_list)
  if pixel_shifts is not None:
      if len(pixel_shifts) != n_wcs:
          raise ValueError("Pixel_shift does not match the number of images or WCSs!")
      pixel_shifts = np.array(pixel_shifts)
  first_wcs = wcs_list[0]
  first_shape = first_wcs.array_shape # [size_chan, size_y, size_x]
  naxis = first_wcs.wcs.naxis
  if naxis == 2: # need to reverse the order of the shape size
      corner_pixel_coords = [(0,0), np.array(first_shape)[::-1]-1] # -1 because the index start at 0
  elif naxis == 3:
      corner_pixel_coords = [(0,0,0), np.array(first_shape)[::-1]-1]
  else:
      raise ValueError("Unsupport datacube! Check the dimentions of the datasets!")
  \<close>
\<close>

definition corner_pixel_coords_of :: "wcs \<Rightarrow> real list list" where
  "corner_pixel_coords_of first_wcs =
     [replicate (naxis first_wcs) 0,
      map (\<lambda>s. real_of_int s - 1) (rev (array_shape first_wcs))]"

definition find_combined_wcs ::
  "wcs_utils \<Rightarrow> wcs list \<Rightarrow> nat list \<Rightarrow> real list list option \<Rightarrow> wcs list \<times> (error + nat)" where
  "find_combined_wcs U store wcs_list pixel_shifts =
     (if (case pixel_shifts of None \<Rightarrow> False | Some shifts \<Rightarrow> length shifts \<noteq> length wcs_list)
      then (store, Inl (ValueError ''Pixel_shift does not match the number of images or WCSs!''))
      else
        (case wcs_list of
           [] \<Rightarrow> (store, Inl IndexError)
         | first # _ \<Rightarrow>
             if naxis (store ! first) \<noteq> 2 \<and> naxis (store ! first) \<noteq> 3
             then (store, Inl (ValueError ''Unsupport datacube! Check the dimentions of the datasets!''))
             else
               (case corners_loop U first (corner_pixel_coords_of (store ! first))
                       (jobs_of wcs_list pixel_shifts) store of
                  (store1, Inl e) \<Rightarrow> (store1, Inl e)
                | (store1, Inr corners) \<Rightarrow>
                    (case combined_of_corners U (store1 ! first) corners of
                       Inl e \<Rightarrow> (store1, Inl e)
                     | Inr wcs_combined \<Rightarrow> (store1 @ [wcs_combined], Inr (length store1))))))"






section \<open>Reprojection and accumulation\<close>

text \<open>
  A numpy masked array: its shape, its data and its mask (\<open>True\<close> is masked).
\<close>

record masked =
  ma_shape :: "nat list"
  ma_data :: "nat list \<Rightarrow> real"
  ma_mask :: "nat list \<Rightarrow> bool"

text \<open>
  The library calls of \<^verbatim>\<open>data_combine\<close>, as parameters:
  \<^item> \<open>utils\<close>: the functions of \<^verbatim>\<open>astropy.wcs.utils\<close> above;
  \<^item> \<open>astro_sigma_clip sigma a\<close>: \<^verbatim>\<open>astro_stats.sigma_clip(a, sigma=sigma, maxiters=5, masked=True)\<close>;
  \<^item> \<open>reproject_adaptive conserve_flux shape a w_in w_out shape_out\<close>: the first component
    of \<^verbatim>\<open>reproject_adaptive((a, w_in.celestial), w_out.celestial, shape_out=shape_out,
    conserve_flux=conserve_flux)\<close>, an array of shape \<open>shape_out\<close>, for the input array
    \<open>a\<close> of shape \<open>shape\<close>.
\<close>

record library =
  utils :: wcs_utils
  astro_sigma_clip :: "real \<Rightarrow> masked \<Rightarrow> masked"
  reproject_adaptive ::
    "bool \<Rightarrow> nat list \<Rightarrow> (nat list \<Rightarrow> real) \<Rightarrow> wcs \<Rightarrow> wcs \<Rightarrow> int list \<Rightarrow> (nat list \<Rightarrow> real)"

text \<open>
  The keyword arguments of \<^verbatim>\<open>data_combine\<close> that the modelled lines read, with the source's
  names. (\<^verbatim>\<open>data_ext\<close> and \<^verbatim>\<open>header_ext\<close> are at their default \<^verbatim>\<open>'DATA'\<close>; \<^verbatim>\<open>mask\<close>, \<^verbatim>\<open>frame\<close>,
  \<^verbatim>\<open>projection\<close> and \<^verbatim>\<open>pixel_size\<close> are never read.)
\<close>

record combine_options =
  mask_ext :: "string option"
  pixel_shifts :: "real list list option"
  ignore_wcs :: bool
  sigma_clip :: bool
  sigma :: real
  bgsub :: bool
  weighting :: "real list option"
  savefile :: "string option"

definition default_options :: combine_options where
  "default_options =
     \<lparr>mask_ext = Some ''DQI'', pixel_shifts = None, ignore_wcs = False, sigma_clip = True,
      sigma = 3, bgsub = True, weighting = None, savefile = None\<rparr>"

text \<open>
  What a call of \<^verbatim>\<open>data_combine\<close> can end with: the file written (the header of the
  combined mapping and the combined array), or a pair of arrays returned.
\<close>

datatype outcome =
    Written string wcs "nat list \<Rightarrow> real"
  | Returned "nat list \<Rightarrow> real" "nat list \<Rightarrow> real"

subsection \<open>Channel reconciliation\<close>

text \<open>The length of \<^verbatim>\<open>a[:stop]\<close> for an array of length \<open>len\<close>.\<close>

definition slice_stop :: "nat \<Rightarrow> int \<Rightarrow> nat" where
  "slice_stop len stop = (if 0 \<le> stop then min len (nat stop) else len - nat (- stop))"

text \<open>
  \<^verbatim>\<open>
  if data.ndim == 3: #<TODO>: find a better way to do
      if len(data) != shape_combined[0]:
          logging.warning("Combining data with different channels!")
      if len(data) >= shape_combined[0]:
          data = data[:shape_combined[0]]
          mask = mask[:shape_combined[0]]
      else:
          data_shape = data.shape
          data_shape_extend = [shape_combined[0], data_shape[1], data_shape[2]]
          data_extend = np.full(data_shape_extend, fill_value=0.)
          mask_extend = np.full(data_shape_extend, fill_value=False)
          data_extend[:data_shape[0]] = data[:]
          mask_extend[:data_shape[0]] = mask[:]
          data = data_extend
          mask = mask_extend
  \<close>
  \<open>mask_extend\<close> is a boolean array, so the mask values assigned into it become
  \<open>True\<close> (1) or \<open>False\<close> (0).
\<close>

definition reconcile_channels ::
  "int list \<Rightarrow> nat list \<Rightarrow> (nat list \<Rightarrow> real) \<Rightarrow> (nat list \<Rightarrow> int)
   \<Rightarrow> error + (nat list \<times> (nat list \<Rightarrow> real) \<times> (nat list \<Rightarrow> int))" where
  "reconcile_channels shape_combined shp data mask1 =
     (if length shp = 3 then
        (case shape_combined of
           [] \<Rightarrow> Inl IndexError
         | n0 # _ \<Rightarrow>
             if n0 \<le> int (shp ! 0)
             then Inr ([slice_stop (shp ! 0) n0, shp ! 1, shp ! 2], data, mask1)
             else Inr ([nat n0, shp ! 1, shp ! 2],
                       (\<lambda>idx. if idx ! 0 < shp ! 0 then data idx else 0),
                       (\<lambda>idx. if idx ! 0 < shp ! 0 then (if mask1 idx \<noteq> 0 then 1 else 0) else 0)))
      else Inr (shp, data, mask1))"

subsection \<open>One exposure\<close>

text \<open>
  \<^verbatim>\<open>
  if mask_ext is not None:
      mask = fits.getdata(image_list[i], mask_ext)
  else:
      mask = np.full(data.shape, fill_value=False)
  \<close>
  The file model has one mask extension, \<^verbatim>\<open>DQI\<close>.
\<close>

definition read_mask :: "string option \<Rightarrow> fits_file \<Rightarrow> error + (nat list \<Rightarrow> int)" where
  "read_mask ext f =
     (case ext of
        None \<Rightarrow> Inr (\<lambda>idx. 0)
      | Some name \<Rightarrow> if name = ''DQI'' then Inr (DQI f) else Inl (KeyError name))"

text \<open>The median as numpy computes it: the middle of the sorted values, or the mean of the two middle ones.\<close>

definition median :: "real list \<Rightarrow> real" where
  "median xs =
     (let s = sort xs; n = length s in
      if even n then (s ! (n div 2 - 1) + s ! (n div 2)) / 2 else s ! (n div 2))"

text \<open>
  \<^verbatim>\<open>
  data_masked = data_masked - np.ma.median(
                  data_masked, axis=(1,2))[:, np.newaxis, np.newaxis]
  \<close>
  The median runs over axes 1 and 2, so an array of fewer than three axes raises
  \<^verbatim>\<open>AxisError\<close>. The subtraction leaves masked cells as they are.
\<close>

definition plane_indices :: "nat list \<Rightarrow> nat list \<Rightarrow> nat list list" where
  "plane_indices shp idx =
     concat (map (\<lambda>y. map (\<lambda>x. idx[1 := y, 2 := x]) [0..<shp ! 2]) [0..<shp ! 1])"

definition subtract_channel_median :: "masked \<Rightarrow> error + masked" where
  "subtract_channel_median m =
     (if length (ma_shape m) < 3 then Inl AxisError
      else Inr (m\<lparr>ma_data := (\<lambda>idx.
             if ma_mask m idx then ma_data m idx
             else ma_data m idx
                  - median (map (ma_data m)
                      (filter (\<lambda>j. \<not> ma_mask m j) (plane_indices (ma_shape m) idx))))\<rparr>))"

text \<open>
  Lines 1066 to 1104: the exposure's data and mask, reconciled, masked, clipped and
  background-subtracted.
  \<^verbatim>\<open>
  data_masked = np.ma.masked_array(data, mask=mask)
  if sigma_clip:
      data_masked = astro_stats.sigma_clip(
              data_masked, sigma=sigma, maxiters=5, masked=True)
  if bgsub:
      ...
  \<close>
\<close>

definition prepare_exposure ::
  "library \<Rightarrow> combine_options \<Rightarrow> int list \<Rightarrow> fits_file \<Rightarrow> error + masked" where
  "prepare_exposure L opts shape_combined f =
     (case read_mask (mask_ext opts) f of
        Inl e \<Rightarrow> Inl e
      | Inr mask0 \<Rightarrow>
     (case reconcile_channels shape_combined (data_shape f) (DATA f) mask0 of
        Inl e \<Rightarrow> Inl e
      | Inr (shp, data, mask1) \<Rightarrow>
          let data_masked = \<lparr>ma_shape = shp, ma_data = data, ma_mask = (\<lambda>idx. mask1 idx \<noteq> 0)\<rparr>;
              clipped = (if sigma_clip opts then astro_sigma_clip L (sigma opts) data_masked
                         else data_masked)
          in if bgsub opts then subtract_channel_median clipped else Inr clipped))"

text \<open>
  Lines 1103 to 1116: the two reprojections and the accumulation. The result carries
  the number of \<^verbatim>\<open>reproject_adaptive\<close> calls made.
  \<^verbatim>\<open>
  data = data_masked.filled(0)
  mask = data_masked.mask
  data_reprojected, footprint = reproject_adaptive((data, image_wcs),
                                                    wcs_combined.celestial,
                                                    shape_out=shape_combined,
                                                    conserve_flux=True)
  mask_reprojected, footprint = reproject_adaptive((mask, image_wcs),
                                                    wcs_combined.celestial,
                                                    shape_out=shape_combined,
                                                    conserve_flux=False)
  data_combined += data_reprojected * weighting[i]
  footprint = footprint.astype(bool)
  coverage_combined += (1.-mask_reprojected)
  \<close>
\<close>

definition mask_reprojected_of :: "library \<Rightarrow> wcs \<Rightarrow> wcs \<Rightarrow> masked \<Rightarrow> (nat list \<Rightarrow> real)" where
  "mask_reprojected_of L image_wcs wcs_combined m =
     reproject_adaptive L False (ma_shape m) (\<lambda>idx. if ma_mask m idx then 1 else 0)
       image_wcs wcs_combined (array_shape wcs_combined)"

definition data_reprojected_of :: "library \<Rightarrow> wcs \<Rightarrow> wcs \<Rightarrow> masked \<Rightarrow> (nat list \<Rightarrow> real)" where
  "data_reprojected_of L image_wcs wcs_combined m =
     reproject_adaptive L True (ma_shape m) (\<lambda>idx. if ma_mask m idx then 0 else ma_data m idx)
       image_wcs wcs_combined (array_shape wcs_combined)"

type_synonym accumulators = "(nat list \<Rightarrow> real) \<times> (nat list \<Rightarrow> real)"

definition combine_step ::
  "library \<Rightarrow> combine_options \<Rightarrow> wcs \<Rightarrow> real list \<Rightarrow> nat \<Rightarrow> fits_file \<times> wcs \<Rightarrow> accumulators
   \<Rightarrow> nat \<times> (error + accumulators)" where
  "combine_step L opts wcs_combined weights i x acc =
     (case prepare_exposure L opts (array_shape wcs_combined) (fst x) of
        Inl e \<Rightarrow> (0, Inl e)
      | Inr m \<Rightarrow>
          let data_reprojected = data_reprojected_of L (snd x) wcs_combined m;
              mask_reprojected = mask_reprojected_of L (snd x) wcs_combined m
          in (2, if i < length weights
                 then Inr ((\<lambda>idx. fst acc idx + data_reprojected idx * weights ! i),
                           (\<lambda>idx. snd acc idx + (1 - mask_reprojected idx)))
                 else Inl IndexError))"

fun combine_loop ::
  "library \<Rightarrow> combine_options \<Rightarrow> wcs \<Rightarrow> real list \<Rightarrow> (fits_file \<times> wcs) list \<Rightarrow> nat \<Rightarrow> accumulators
   \<Rightarrow> nat \<times> (error + accumulators)" where
  "combine_loop L opts wcs_combined weights [] i acc = (0, Inr acc)"
| "combine_loop L opts wcs_combined weights (x # xs) i acc =
     (case combine_step L opts wcs_combined weights i x acc of
        (calls, Inl e) \<Rightarrow> (calls, Inl e)
      | (calls, Inr acc1) \<Rightarrow>
          (case combine_loop L opts wcs_combined weights xs (Suc i) acc1 of
             (calls', r) \<Rightarrow> (calls + calls', r)))"

subsection \<open>The mappings of the exposures and the combined grid\<close>

text \<open>
  With \<^verbatim>\<open>ignore_wcs\<close> and shifts, every exposure gets a copy of the first file's mapping,
  shifted:
  \<^verbatim>\<open>
  for i in range(nimages):
      wcs_tmp = wcs_mock.deepcopy()
      x_shift, y_shift = pixel_shifts[i]
      wcs_tmp.wcs.crpix += np.array([x_shift, y_shift, 0])
      wcs_list.append(wcs_tmp)
  \<close>
  The unpacking needs a row of two values, the in-place sum a \<open>crpix\<close> of three.
\<close>

definition mock_wcs :: "wcs \<Rightarrow> real list \<Rightarrow> error + wcs" where
  "mock_wcs wcs_mock shift =
     (case shift of
        [x_shift, y_shift] \<Rightarrow>
          if length (crpix wcs_mock) = 3
          then Inr (wcs_mock\<lparr>crpix := map2 (+) (crpix wcs_mock) [x_shift, y_shift, 0]\<rparr>)
          else Inl (ValueError ''operands could not be broadcast together'')
      | _ \<Rightarrow> Inl (ValueError ''wrong number of values to unpack''))"

fun mock_wcs_list :: "wcs \<Rightarrow> real list list \<Rightarrow> error + wcs list" where
  "mock_wcs_list wcs_mock [] = Inr []"
| "mock_wcs_list wcs_mock (shift # shifts) =
     (case mock_wcs wcs_mock shift of
        Inl e \<Rightarrow> Inl e
      | Inr w \<Rightarrow>
     (case mock_wcs_list wcs_mock shifts of
        Inl e \<Rightarrow> Inl e
      | Inr ws \<Rightarrow> Inr (w # ws)))"

text \<open>
  Lines 1014 to 1044: the store of mapping objects and the list \<open>wcs_list\<close> of their
  addresses. \<^verbatim>\<open>[wcs_mock]*nimages\<close> is one object at every position.
\<close>

definition exposure_mappings ::
  "fits_file list \<Rightarrow> combine_options \<Rightarrow> error + (wcs list \<times> nat list)" where
  "exposure_mappings image_list opts =
     (if ignore_wcs opts then
        (case image_list of
           [] \<Rightarrow> Inl IndexError
         | f0 # _ \<Rightarrow>
             (case pixel_shifts opts of
                Some shifts \<Rightarrow>
                  (case mock_wcs_list (file_wcs f0) shifts of
                     Inl e \<Rightarrow> Inl e
                   | Inr ws \<Rightarrow> Inr (ws, [0..<length ws]))
              | None \<Rightarrow> Inr ([file_wcs f0], replicate (length image_list) 0)))
      else Inr (map file_wcs image_list, [0..<length image_list]))"

text \<open>
  Lines 1004 to 1048: the validation of the shifts, the mappings, and the call
  \<^verbatim>\<open>find_combined_wcs(wcs_list=wcs_list, frame=frame, pixel_size=pixel_size)\<close>, which is
  not given the shifts. The result is the mapping of every exposure (read after the
  call) and the combined mapping.
\<close>

definition combined_grid ::
  "library \<Rightarrow> fits_file list \<Rightarrow> combine_options \<Rightarrow> error + (wcs list \<times> wcs)" where
  "combined_grid L image_list opts =
     (if (case pixel_shifts opts of
            None \<Rightarrow> False
          | Some shifts \<Rightarrow> length shifts \<noteq> length image_list)
      then Inl (ValueError ''Pixel_shift does not match the number of images!'')
      else
        (case exposure_mappings image_list opts of
           Inl e \<Rightarrow> Inl e
         | Inr (store, wcs_list) \<Rightarrow>
             (case find_combined_wcs (utils L) store wcs_list None of
                (store1, Inl e) \<Rightarrow> Inl e
              | (store1, Inr r) \<Rightarrow> Inr (map (\<lambda>a. store1 ! a) wcs_list, store1 ! r))))"

subsection \<open>The whole combination\<close>

text \<open>
  Lines 1054 to 1119: the accumulators, the weights, the loop over the exposures and
  the final division. The result is the number of reprojections made and either the
  error raised or the combined mapping with the accumulated sum and the coverage.
  \<^verbatim>\<open>
  data_combined = np.full(shape_combined, fill_value=0.)
  coverage_combined = np.full(shape_combined, fill_value=1e-8)
  if weighting is None:
      weighting = np.full(nimages, fill_value=1./nimages)
  \<close>
\<close>

definition coverage_epsilon :: real where
  "coverage_epsilon = 1 / 10 ^ 8"

definition accumulate ::
  "library \<Rightarrow> fits_file list \<Rightarrow> combine_options \<Rightarrow> nat \<times> (error + (wcs \<times> accumulators))" where
  "accumulate L image_list opts =
     (case combined_grid L image_list opts of
        Inl e \<Rightarrow> (0, Inl e)
      | Inr (wcs_list, wcs_combined) \<Rightarrow>
          let weights = (case weighting opts of
                           None \<Rightarrow> replicate (length image_list) (1 / real (length image_list))
                         | Some w \<Rightarrow> w)
          in case combine_loop L opts wcs_combined weights (zip image_list wcs_list) 0
                    ((\<lambda>idx. 0), (\<lambda>idx. coverage_epsilon)) of
               (calls, Inl e) \<Rightarrow> (calls, Inl e)
             | (calls, Inr acc) \<Rightarrow> (calls, Inr (wcs_combined, acc)))"

text \<open>
  Lines 1121 to 1140. On the save path the cards \<^verbatim>\<open>CDELTn\<close> are set in \<open>header\<close>, the
  header last read from an input file (of the first file with \<^verbatim>\<open>ignore_wcs\<close>, of the last
  one otherwise); a missing card raises \<^verbatim>\<open>KeyError\<close>. The other path reads the name
  \<open>error_combined\<close>, which no line assigns.
  \<^verbatim>\<open>
  if savefile is not None:
      hdr = wcs_combined.to_header()
      ...
      if 'CD1_1' in header.keys():
          header['CDELT1'] = header['CD1_1']
          header['CDELT2'] = header['CD2_2']
          header['CDELT3'] = header['CD3_3']
      elif 'PC1_1' in header.keys():
          header['CDELT1'] = header['PC1_1']
          header['CDELT2'] = header['PC2_2']
          header['CDELT3'] = header['PC3_3']
      ...
      hdus.writeto(savefile, overwrite=True)
  else:
      return data_combined, error_combined
  \<close>
\<close>

definition reset_cdelt :: "fits_header \<Rightarrow> error + fits_header" where
  "reset_cdelt header =
     (if header ''CD1_1'' \<noteq> None then
        (case header_get header ''CD1_1'' of Inl e \<Rightarrow> Inl e | Inr c1 \<Rightarrow>
         case header_get header ''CD2_2'' of Inl e \<Rightarrow> Inl e | Inr c2 \<Rightarrow>
         case header_get header ''CD3_3'' of Inl e \<Rightarrow> Inl e | Inr c3 \<Rightarrow>
           Inr (header(''CDELT1'' \<mapsto> c1, ''CDELT2'' \<mapsto> c2, ''CDELT3'' \<mapsto> c3)))
      else if header ''PC1_1'' \<noteq> None then
        (case header_get header ''PC1_1'' of Inl e \<Rightarrow> Inl e | Inr c1 \<Rightarrow>
         case header_get header ''PC2_2'' of Inl e \<Rightarrow> Inl e | Inr c2 \<Rightarrow>
         case header_get header ''PC3_3'' of Inl e \<Rightarrow> Inl e | Inr c3 \<Rightarrow>
           Inr (header(''CDELT1'' \<mapsto> c1, ''CDELT2'' \<mapsto> c2, ''CDELT3'' \<mapsto> c3)))
      else Inr header)"

definition last_header :: "fits_file list \<Rightarrow> combine_options \<Rightarrow> fits_header" where
  "last_header image_list opts =
     data_header (if ignore_wcs opts then hd image_list else last image_list)"

definition finish ::
  "fits_file list \<Rightarrow> combine_options \<Rightarrow> wcs \<Rightarrow> (nat list \<Rightarrow> real) \<Rightarrow> error + outcome" where
  "finish image_list opts wcs_combined data_combined =
     (case savefile opts of
        Some path \<Rightarrow>
          (case reset_cdelt (last_header image_list opts) of
             Inl e \<Rightarrow> Inl e
           | Inr header \<Rightarrow> Inr (Written path wcs_combined data_combined))
      | None \<Rightarrow> Inl (NameError ''error_combined''))"

definition data_combine ::
  "library \<Rightarrow> fits_file list \<Rightarrow> combine_options \<Rightarrow> nat \<times> (error + outcome)" where
  "data_combine L image_list opts =
     (case accumulate L image_list opts of
        (calls, Inl e) \<Rightarrow> (calls, Inl e)
      | (calls, Inr (wcs_combined, acc)) \<Rightarrow>
          (calls, finish image_list opts wcs_combined (\<lambda>idx. fst acc idx / snd acc idx)))"

subsection \<open>The caller of the combination\<close>

text \<open>
  \<^verbatim>\<open>
  def compute_weighting_eris(image_list, mode='exptime', header_ext='DATA'):
      if mode == 'exptime':
          total_time = 0
          time_list = []
          for img in image_list:
              with fits.open(img) as hdu:
                  header = hdu[header_ext].header
                  total_time += header['EXPTIME']
                  time_list.append(header['EXPTIME'])
          return np.array(time_list)/total_time
  \<close>
  (A total time of zero gives numpy's \<open>nan\<close> or \<open>inf\<close>, which the reals do not model.)
\<close>

fun exposure_times :: "fits_file list \<Rightarrow> error + real list" where
  "exposure_times [] = Inr []"
| "exposure_times (img # rest) =
     (case header_get (data_header img) ''EXPTIME'' of
        Inl e \<Rightarrow> Inl e
      | Inr t \<Rightarrow>
     (case exposure_times rest of
        Inl e \<Rightarrow> Inl e
      | Inr ts \<Rightarrow> Inr (t # ts)))"

definition compute_weighting_eris :: "fits_file list \<Rightarrow> error + real list" where
  "compute_weighting_eris image_list =
     (case exposure_times image_list of
        Inl e \<Rightarrow> Inl e
      | Inr time_list \<Rightarrow> Inr (map (\<lambda>t. t / sum_list time_list) time_list))"

text \<open>
  \<^verbatim>\<open>
  def combine_eris_ifu(image_list=None, dirname=None, pattern='', drifts_file=None, outfile=None, **kwargs):
      if dirname is not None:
          image_list = search_eris_files(dirname, pattern)
      weighting = compute_weighting_eris(image_list)
      drifts = compute_eris_offset(image_list, additional_drifts=drifts_file)
      data_combine(image_list, weighting=weighting, pixel_shifts=drifts, savefile=outfile, **kwargs)
  \<close>
  The model takes the image list as given and no further keyword argument; \<open>drifts_file\<close>
  names a drift table. The result is what the call of \<open>data_combine\<close> ends with.
\<close>

definition combine_eris_ifu ::
  "library \<Rightarrow> fits_file list \<Rightarrow> drift_row list option \<Rightarrow> string option \<Rightarrow> nat \<times> (error + outcome)" where
  "combine_eris_ifu L image_list drifts_file outfile =
     (case compute_weighting_eris image_list of
        Inl e \<Rightarrow> (0, Inl e)
      | Inr weights \<Rightarrow>
     (case compute_eris_offset image_list (map_option DriftTable drifts_file) of
        Inl e \<Rightarrow> (0, Inl e)
      | Inr (drifts, out) \<Rightarrow>
          data_combine L image_list
            (default_options\<lparr>weighting := Some weights,
                             pixel_shifts := Some (map (\<lambda>d. [fst d, snd d]) drifts),
                             savefile := outfile\<rparr>)))"

section \<open>Filling a masked region\<close>






















section \<open>Example inputs\<close>

text \<open>A cube of two channels of 2 by 2 pixels, all cells 1, no bad pixel.\<close>

definition wcs_A :: wcs where
  "wcs_A = \<lparr>naxis = 3, crpix = [1, 1, 1], crval = [10, 20, 2],
            cd = Some [[1, 0, 0], [0, 1, 0], [0, 0, 1]], pc = None,
            array_shape = [2, 2, 2]\<rparr>"

definition file_A :: fits_file where
  "file_A = \<lparr>ARCFILE = ''ERIS.A'', CUMOFFS_RA = 0, CUMOFFS_DEC = 0,
             data_header = [''CD1_1'' \<mapsto> - 1 / 3600, ''CD2_2'' \<mapsto> 1 / 3600, ''CD3_3'' \<mapsto> 1],
             file_wcs = wcs_A, data_shape = [2, 2, 2], DATA = (\<lambda>idx. 1), DQI = (\<lambda>idx. 0)\<rparr>"

definition file_B :: fits_file where
  "file_B = \<lparr>ARCFILE = ''ERIS.B'', CUMOFFS_RA = 3, CUMOFFS_DEC = - 2,
             data_header = [''CD1_1'' \<mapsto> - 1 / 3600, ''CD2_2'' \<mapsto> 1 / 3600, ''CD3_3'' \<mapsto> 1],
             file_wcs = wcs_A, data_shape = [2, 2, 2], DATA = (\<lambda>idx. 1), DQI = (\<lambda>idx. 0)\<rparr>"

text \<open>A drift table with a row for the first of them only.\<close>

definition drift_table_A :: "drift_row list" where
  "drift_table_A = [\<lparr>row_ARCFILE = ''ERIS.A'', x_model = 33, y_model = 32\<rparr>]"

text \<open>
  The conversions of mappings with linear axes of unit step, pixels counted from 0 and
  reference pixels from 1: \<open>world = crval + (pixel + 1 - crpix)\<close> on every axis.
\<close>

definition linear_utils :: wcs_utils where
  "linear_utils =
     \<lparr>pixel_to_pixel = (\<lambda>w_in w_out p.
         map (\<lambda>k. crval w_in ! k + (p ! k + 1 - crpix w_in ! k) - crval w_out ! k + crpix w_out ! k - 1)
             [0..<naxis w_out]),
      pixel_to_skycoord = (\<lambda>x y w.
         (crval w ! 0 + (x + 1 - crpix w ! 0), crval w ! 1 + (y + 1 - crpix w ! 1)))\<rparr>"

text \<open>
  A library that clips nothing and whose resampling copies the cells, as it does
  between two grids that coincide.
\<close>

definition plain_library :: library where
  "plain_library =
     \<lparr>utils = linear_utils,
      astro_sigma_clip = (\<lambda>sg a. a),
      reproject_adaptive = (\<lambda>conserve_flux shp a w_in w_out shape_out. a)\<rparr>"

text \<open>The combined mapping the solver gives for \<open>wcs_A\<close> alone.\<close>

definition wcs_A_combined :: wcs where
  "wcs_A_combined = wcs_A\<lparr>crpix := [1, 1, 1], crval := [11, 21, 2], array_shape := [2, 2, 2]\<rparr>"



text \<open>
  An image mapping of 4 by 4 pixels, and the same mapping for an image of 10 by 10
  pixels.
\<close>

definition wcs_2d :: wcs where
  "wcs_2d = \<lparr>naxis = 2, crpix = [1, 1], crval = [10, 20],
             cd = Some [[1, 0], [0, 1]], pc = None, array_shape = [4, 4]\<rparr>"

definition wcs_2d_big :: wcs where
  "wcs_2d_big = wcs_2d\<lparr>array_shape := [10, 10]\<rparr>"





section \<open>The offset estimator: results\<close>

lemma read_eris_drifts_length: "length (fst (read_eris_drifts dat names)) = length names"
  by (induction names) (auto split: prod.splits)

lemma read_eris_drifts_nth:
  "i < length names \<Longrightarrow> fst (read_eris_drifts dat names) ! i = table_drift dat (names ! i)"
proof (induction names arbitrary: i)
  case Nil
  then show ?case by simp
next
  case (Cons a names)
  then show ?case
    by (cases i) (auto simp: table_drift_def split: prod.splits)
qed

lemma read_eris_drifts_warns:
  "arcfile \<in> set names \<Longrightarrow> arcfile \<notin> row_ARCFILE ` set dat \<Longrightarrow>
   ''Drifts not found!'' \<in> set (snd (read_eris_drifts dat names))"
proof (induction names)
  case Nil
  then show ?case by simp
next
  case (Cons a names)
  have none: "filter (\<lambda>r. row_ARCFILE r = arcfile) dat = []"
    using Cons.prems(2) by (auto simp: filter_empty_conv)
  show ?case
  proof (cases "a = arcfile")
    case True
    then show ?thesis
      using none by (auto simp: drift_of_def split: prod.splits)
  next
    case False
    then have "arcfile \<in> set names" using Cons.prems(1) by simp
    from Cons.IH [OF this Cons.prems(2)] show ?thesis
      by (auto split: prod.splits)
  qed
qed

lemma table_drift_absent:
  "arcfile \<notin> row_ARCFILE ` set dat \<Longrightarrow> table_drift dat arcfile = (0, 0)"
proof -
  assume "arcfile \<notin> row_ARCFILE ` set dat"
  then have "filter (\<lambda>r. row_ARCFILE r = arcfile) dat = []"
    by (auto simp: filter_empty_conv)
  then show ?thesis by (simp add: table_drift_def drift_of_def)
qed

lemma ocs_offset_ok:
  "has_pixel_scale img \<Longrightarrow>
   ocs_offset r d img = Inr ((CUMOFFS_RA img - r) / fst (pixel_scale img),
                             (CUMOFFS_DEC img - d) / snd (pixel_scale img))"
  by (auto simp: has_pixel_scale_def ocs_offset_def header_get_def pixel_scale_def Let_def
           split: option.splits)

lemma ocs_offsets_ok:
  "list_all has_pixel_scale imgs \<Longrightarrow>
   ocs_offsets r d imgs =
     Inr (map (\<lambda>img. ((CUMOFFS_RA img - r) / fst (pixel_scale img),
                       (CUMOFFS_DEC img - d) / snd (pixel_scale img))) imgs)"
  by (induction imgs) (simp_all add: ocs_offset_ok)

lemma compute_eris_offset_None:
  assumes "list_all has_pixel_scale image_list"
  shows "compute_eris_offset image_list None =
           Inr (map (ocs_shift image_list) [0..<length image_list], [])"
proof (cases image_list)
  case Nil
  then show ?thesis by (simp add: compute_eris_offset_def)
next
  case (Cons img0 rest)
  then have hd0: "image_list ! 0 = img0" by simp
  have "map (\<lambda>img. ((CUMOFFS_RA img - CUMOFFS_RA img0) / fst (pixel_scale img),
                     (CUMOFFS_DEC img - CUMOFFS_DEC img0) / snd (pixel_scale img))) image_list
        = map (ocs_shift image_list) [0..<length image_list]"
    by (rule nth_equalityI) (simp_all add: ocs_shift_def hd0)
  then show ?thesis
    using ocs_offsets_ok [OF assms, of "CUMOFFS_RA img0" "CUMOFFS_DEC img0"]
    by (simp add: compute_eris_offset_def Cons)
qed

lemma compute_eris_offset_Table:
  assumes "list_all has_pixel_scale image_list"
  shows "compute_eris_offset image_list (Some (DriftTable dat)) =
           Inr (map (\<lambda>i. add_drift (ocs_shift image_list i)
                                    (table_drift dat (ARCFILE (image_list ! i))))
                    [0..<length image_list],
                snd (read_eris_drifts dat (map ARCFILE image_list)))"
proof -
  have "compute_eris_offset image_list (Some (DriftTable dat)) =
        Inr (map (\<lambda>i. add_drift (map (ocs_shift image_list) [0..<length image_list] ! i)
                (fst (read_eris_drifts dat (map ARCFILE image_list)) ! i)) [0..<length image_list],
             snd (read_eris_drifts dat (map ARCFILE image_list)))"
    using compute_eris_offset_None [OF assms] read_eris_drifts_length [of dat "map ARCFILE image_list"]
    by (auto simp: compute_eris_offset_def split: sum.splits prod.splits list.splits)
  moreover have "map (\<lambda>i. add_drift (map (ocs_shift image_list) [0..<length image_list] ! i)
                (fst (read_eris_drifts dat (map ARCFILE image_list)) ! i)) [0..<length image_list]
      = map (\<lambda>i. add_drift (ocs_shift image_list i)
                                    (table_drift dat (ARCFILE (image_list ! i))))
                    [0..<length image_list]"
    by (rule map_cong) (simp_all add: read_eris_drifts_nth)
  ultimately show ?thesis by simp
qed

lemma compute_eris_offset_Array:
  assumes "list_all has_pixel_scale image_list" "length image_list \<le> length a"
  shows "compute_eris_offset image_list (Some (DriftArray a)) =
           Inr (map (\<lambda>i. add_drift (ocs_shift image_list i) (a ! i)) [0..<length image_list], [])"
proof -
  have "map (\<lambda>i. add_drift (map (ocs_shift image_list) [0..<length image_list] ! i) (a ! i))
            [0..<length image_list]
      = map (\<lambda>i. add_drift (ocs_shift image_list i) (a ! i)) [0..<length image_list]"
    by (rule map_cong) simp_all
  then show ?thesis
    using compute_eris_offset_None [OF assms(1)] assms(2)
    by (auto simp: compute_eris_offset_def split: sum.splits prod.splits list.splits)
qed

text \<open>
  The estimator gives one entry per file, and a drift table never makes it fail: the
  table read has one row per archive identifier.
\<close>

lemma ocs_offsets_length:
  "ocs_offsets r d imgs = Inr offs \<Longrightarrow> length offs = length imgs"
  by (induction imgs arbitrary: offs) (auto split: sum.splits)

lemma compute_eris_offset_length:
  "compute_eris_offset image_list drifts = Inr (offs, out) \<Longrightarrow> length offs = length image_list"
  by (auto simp: compute_eris_offset_def dest: ocs_offsets_length
           split: sum.splits option.splits prod.splits if_splits list.splits)

lemma compute_eris_offset_table_error:
  "compute_eris_offset image_list (Some (DriftTable dat)) = Inl e \<longleftrightarrow>
   compute_eris_offset image_list None = Inl e"
  using read_eris_drifts_length [of dat "map ARCFILE image_list"]
  by (auto simp: compute_eris_offset_def split: sum.splits prod.splits list.splits)

lemma table_drift_single:
  "filter (\<lambda>r. row_ARCFILE r = arcfile) dat = [r] \<Longrightarrow>
   table_drift dat arcfile = (x_model r - 32, y_model r - 32)"
  by (simp add: table_drift_def drift_of_def pixel_center_def)

text \<open>
  Claim C8, amended. For every exposure list whose \<^verbatim>\<open>DATA\<close> headers give a non-zero
  pixel scale, \<open>compute_eris_offset\<close> returns one \<open>(dx, dy)\<close> per exposure. Without
  additional drifts, entry \<open>i\<close> is (reported offset \<open>i\<close> minus reported offset 0)
  divided, per axis, by exposure \<open>i\<close>'s own pixel scale, and entry 0 is \<open>(0, 0)\<close>. With
  additional drifts (an array or a table) every entry, entry 0 included, is that quotient
  plus the exposure's drift. The drift a table gives an exposure with exactly one row is
  \<open>(x_model - 32, y_model - 32)\<close>; an exposure whose identifier is absent from the table
  gets the drift \<open>(0, 0)\<close> and the printed line \<^verbatim>\<open>Drifts not found!\<close>, and no error.
\<close>

theorem compute_eris_offset_shifts:
  assumes "list_all has_pixel_scale image_list"
  shows "compute_eris_offset image_list None =
           Inr (map (ocs_shift image_list) [0..<length image_list], [])
       \<and> ocs_shift image_list 0 = (0, 0)
       \<and> (\<forall>a. length image_list \<le> length a \<longrightarrow>
              compute_eris_offset image_list (Some (DriftArray a)) =
                Inr (map (\<lambda>i. add_drift (ocs_shift image_list i) (a ! i))
                         [0..<length image_list], []))
       \<and> (\<forall>dat. \<exists>out.
              compute_eris_offset image_list (Some (DriftTable dat)) =
                Inr (map (\<lambda>i. add_drift (ocs_shift image_list i)
                                         (table_drift dat (ARCFILE (image_list ! i))))
                         [0..<length image_list], out)
            \<and> (\<forall>img \<in> set image_list.
                  (\<forall>r. filter (\<lambda>r. row_ARCFILE r = ARCFILE img) dat = [r] \<longrightarrow>
                       table_drift dat (ARCFILE img) = (x_model r - 32, y_model r - 32))
                \<and> (ARCFILE img \<notin> row_ARCFILE ` set dat \<longrightarrow>
                       table_drift dat (ARCFILE img) = (0, 0)
                     \<and> ''Drifts not found!'' \<in> set out)))"
proof (intro conjI allI impI)
  show "compute_eris_offset image_list None =
          Inr (map (ocs_shift image_list) [0..<length image_list], [])"
    by (rule compute_eris_offset_None [OF assms])
  show "ocs_shift image_list 0 = (0, 0)"
    by (simp add: ocs_shift_def)
next
  fix a :: "(real \<times> real) list"
  assume "length image_list \<le> length a"
  then show "compute_eris_offset image_list (Some (DriftArray a)) =
          Inr (map (\<lambda>i. add_drift (ocs_shift image_list i) (a ! i)) [0..<length image_list], [])"
    by (rule compute_eris_offset_Array [OF assms])
next
  fix dat
  let ?out = "snd (read_eris_drifts dat (map ARCFILE image_list))"
  have "\<forall>img \<in> set image_list.
          (\<forall>r. filter (\<lambda>r. row_ARCFILE r = ARCFILE img) dat = [r] \<longrightarrow>
               table_drift dat (ARCFILE img) = (x_model r - 32, y_model r - 32))
        \<and> (ARCFILE img \<notin> row_ARCFILE ` set dat \<longrightarrow>
               table_drift dat (ARCFILE img) = (0, 0) \<and> ''Drifts not found!'' \<in> set ?out)"
  proof (intro ballI conjI allI impI)
    fix img r
    assume "filter (\<lambda>r. row_ARCFILE r = ARCFILE img) dat = [r]"
    then show "table_drift dat (ARCFILE img) = (x_model r - 32, y_model r - 32)"
      by (rule table_drift_single)
  next
    fix img
    assume "ARCFILE img \<notin> row_ARCFILE ` set dat"
    then show "table_drift dat (ARCFILE img) = (0, 0)"
      by (rule table_drift_absent)
  next
    fix img
    assume "img \<in> set image_list" and "ARCFILE img \<notin> row_ARCFILE ` set dat"
    then show "''Drifts not found!'' \<in> set ?out"
      by (intro read_eris_drifts_warns) auto
  qed
  with compute_eris_offset_Table [OF assms, of dat]
  show "\<exists>out.
           compute_eris_offset image_list (Some (DriftTable dat)) =
             Inr (map (\<lambda>i. add_drift (ocs_shift image_list i)
                                      (table_drift dat (ARCFILE (image_list ! i))))
                      [0..<length image_list], out)
         \<and> (\<forall>img \<in> set image_list.
               (\<forall>r. filter (\<lambda>r. row_ARCFILE r = ARCFILE img) dat = [r] \<longrightarrow>
                    table_drift dat (ARCFILE img) = (x_model r - 32, y_model r - 32))
             \<and> (ARCFILE img \<notin> row_ARCFILE ` set dat \<longrightarrow>
                    table_drift dat (ARCFILE img) = (0, 0)
                  \<and> ''Drifts not found!'' \<in> set out))"
    by blast
qed

lemma has_pixel_scale_AB: "list_all has_pixel_scale [file_A, file_B]"
  by (simp add: has_pixel_scale_def file_A_def file_B_def)

theorem compute_eris_offset_shifts_witness:
  "list_all has_pixel_scale [file_A, file_B]
   \<and> compute_eris_offset [file_A, file_B] None = Inr ([(0, 0), (3, - 2)], [])
   \<and> compute_eris_offset [file_A, file_B] (Some (DriftTable drift_table_A)) =
       Inr ([(1, 0), (3, - 2)], [''Drifts not found!''])"
proof -
  have ok: "list_all has_pixel_scale [file_A, file_B]"
    by (rule has_pixel_scale_AB)
  have s0: "ocs_shift [file_A, file_B] 0 = (0, 0)"
    by (simp add: ocs_shift_def)
  have s1: "ocs_shift [file_A, file_B] (Suc 0) = (3, - 2)"
    by (simp add: ocs_shift_def pixel_scale_def file_A_def file_B_def)
  have idx: "[0..<length [file_A, file_B]] = [0, Suc 0]"
    by (simp add: upt_rec)
  have dA: "table_drift drift_table_A (ARCFILE file_A) = (1, 0)"
    by (simp add: table_drift_def drift_of_def drift_table_A_def file_A_def pixel_center_def)
  have dB: "table_drift drift_table_A (ARCFILE file_B) = (0, 0)"
    by (simp add: table_drift_def drift_of_def drift_table_A_def file_B_def)
  have out: "snd (read_eris_drifts drift_table_A (map ARCFILE [file_A, file_B])) = [''Drifts not found!'']"
    by (simp add: drift_of_def drift_table_A_def file_A_def file_B_def)
  from compute_eris_offset_shifts [OF ok]
  have "compute_eris_offset [file_A, file_B] None =
          Inr (map (ocs_shift [file_A, file_B]) [0..<length [file_A, file_B]], [])"
    and "\<exists>out. compute_eris_offset [file_A, file_B] (Some (DriftTable drift_table_A)) =
           Inr (map (\<lambda>i. add_drift (ocs_shift [file_A, file_B] i)
                     (table_drift drift_table_A (ARCFILE ([file_A, file_B] ! i))))
                    [0..<length [file_A, file_B]], out)"
    by blast+
  moreover have "compute_eris_offset [file_A, file_B] (Some (DriftTable drift_table_A)) =
       Inr ([(1, 0), (3, - 2)], [''Drifts not found!''])"
    using compute_eris_offset_Table [OF ok, of drift_table_A]
    by (simp only: idx out) (simp add: s0 s1 dA dB add_drift_def)
  ultimately show ?thesis
    using ok by (simp only: idx) (simp add: s0 s1)
qed

text \<open>
  Claim C8 as stated fails: with a drift table whose row for the first exposure is one
  pixel off the expected centre, entry 0 of the result is \<open>(1, 0)\<close>, not \<open>(0, 0)\<close>.
\<close>

theorem compute_eris_offset_entry0_counterexample:
  "compute_eris_offset [file_A] (Some (DriftTable drift_table_A)) = Inr ([(1, 0)], [])
   \<and> [(1, 0)] ! 0 \<noteq> (0 :: real, 0 :: real)"
proof -
  have ok: "list_all has_pixel_scale [file_A]"
    by (simp add: has_pixel_scale_def file_A_def)
  have "compute_eris_offset [file_A] (Some (DriftTable drift_table_A)) = Inr ([(1, 0)], [])"
    using compute_eris_offset_Table [OF ok, of drift_table_A]
    by (simp add: ocs_shift_def table_drift_def drift_of_def drift_table_A_def file_A_def
          pixel_center_def add_drift_def)
  then show ?thesis by simp
qed
section \<open>The combined-frame solver: results\<close>

lemmas solver_defs =
  find_combined_wcs_def linear_utils_def corner_pixel_coords_of_def jobs_of_def
  combined_of_corners_def ranges_of_def low_boundary_def up_boundary_def column_def
  np_round_def spectral_step_def shift_crpix_def Let_def numeral_2_eq_2 numeral_3_eq_3 upt_rec

subsection \<open>The loop over the mappings\<close>



lemma update_crpix_frame:
  "naxis ((store[r := (store ! r)\<lparr>crpix := c\<rparr>]) ! a) = naxis (store ! a)
   \<and> cd ((store[r := (store ! r)\<lparr>crpix := c\<rparr>]) ! a) = cd (store ! a)
   \<and> pc ((store[r := (store ! r)\<lparr>crpix := c\<rparr>]) ! a) = pc (store ! a)"
  by (cases "r < length store") (auto simp: nth_list_update list_update_beyond)



lemma corners_loop_frame:
  "corners_loop U first cpc jobs store = (store1, res) \<Longrightarrow>
   naxis (store1 ! a) = naxis (store ! a) \<and> cd (store1 ! a) = cd (store ! a)
   \<and> pc (store1 ! a) = pc (store ! a)"
proof (induction jobs arbitrary: store res)
  case Nil
  then show ?case by simp
next
  case (Cons job jobs)
  obtain r sh where job: "job = (r, sh)" by (cases job)
  show ?case
  proof (cases sh)
    case None
    with Cons.prems job obtain res' where
      "corners_loop U first cpc jobs store = (store1, res')"
      by (auto split: prod.splits sum.splits)
    from Cons.IH [OF this] show ?thesis .
  next
    case (Some shift)
    show ?thesis
    proof (cases "shift_crpix (crpix (store ! r)) shift")
      case (Inl e)
      with Cons.prems job Some show ?thesis by simp
    next
      case (Inr c)
      with Cons.prems job Some obtain res' where
        "corners_loop U first cpc jobs (store[r := (store ! r)\<lparr>crpix := c\<rparr>]) = (store1, res')"
        by (auto split: prod.splits sum.splits)
      from Cons.IH [OF this] update_crpix_frame [of store r c a] show ?thesis
        by simp
    qed
  qed
qed

lemma corners_loop_length:
  "corners_loop U first cpc jobs store = (store1, res) \<Longrightarrow> length store1 = length store"
proof (induction jobs arbitrary: store res)
  case Nil
  then show ?case by simp
next
  case (Cons job jobs)
  obtain a sh where job: "job = (a, sh)" by (cases job)
  show ?case
  proof (cases sh)
    case None
    with Cons.prems job obtain res' where
      "corners_loop U first cpc jobs store = (store1, res')"
      by (auto split: prod.splits sum.splits)
    from Cons.IH [OF this] show ?thesis .
  next
    case (Some shift)
    show ?thesis
    proof (cases "shift_crpix (crpix (store ! a)) shift")
      case (Inl e)
      with Cons.prems job Some show ?thesis by simp
    next
      case (Inr c)
      with Cons.prems job Some obtain res' where
        "corners_loop U first cpc jobs (store[a := (store ! a)\<lparr>crpix := c\<rparr>]) = (store1, res')"
        by (auto split: prod.splits sum.splits)
      from Cons.IH [OF this] show ?thesis by simp
    qed
  qed
qed

lemma corners_loop_count:
  "corners_loop U first cpc jobs store = (store1, Inr corners) \<Longrightarrow>
   length corners = length jobs * length cpc"
proof (induction jobs arbitrary: store corners)
  case Nil
  then show ?case by simp
next
  case (Cons job jobs)
  obtain a sh where job: "job = (a, sh)" by (cases job)
  from Cons.prems job obtain store' cs where
    "corners_loop U first cpc jobs store' = (store1, Inr cs)"
    and "corners = map (pixel_to_pixel U (store' ! a) (store' ! first)) cpc @ cs"
    by (auto simp: Let_def split: option.splits prod.splits sum.splits)
  with Cons.IH [of store' cs] show ?case by simp
qed



lemma corners_loop_None:
  "corners_loop U first cpc (map (\<lambda>r. (r, None)) refs) store =
     (store, Inr (concat (map (\<lambda>r. map (pixel_to_pixel U (store ! r) (store ! first)) cpc) refs)))"
  by (induction refs) (simp_all add: Let_def)

lemma corners_loop_untouched:
  "corners_loop U first cpc jobs store = (store1, res) \<Longrightarrow> a \<notin> fst ` set jobs \<Longrightarrow>
   store1 ! a = store ! a"
proof (induction jobs arbitrary: store res)
  case Nil
  then show ?case by simp
next
  case (Cons job jobs)
  obtain a' sh where job: "job = (a', sh)" by (cases job)
  with Cons.prems have neq: "a \<noteq> a'" and rest: "a \<notin> fst ` set jobs"
    by auto
  show ?case
  proof (cases sh)
    case None
    with Cons.prems job obtain res' where
      "corners_loop U first cpc jobs store = (store1, res')"
      by (auto split: prod.splits sum.splits)
    from Cons.IH [OF this rest] show ?thesis .
  next
    case (Some shift)
    show ?thesis
    proof (cases "shift_crpix (crpix (store ! a')) shift")
      case (Inl e)
      with Cons.prems job Some show ?thesis by simp
    next
      case (Inr c)
      with Cons.prems job Some obtain res' where
        "corners_loop U first cpc jobs (store[a' := (store ! a')\<lparr>crpix := c\<rparr>]) = (store1, res')"
        by (auto split: prod.splits sum.splits)
      from Cons.IH [OF this rest] neq show ?thesis by simp
    qed
  qed
qed

lemma corners_loop_shifted:
  "corners_loop U first cpc jobs store = (store1, Inr cs) \<Longrightarrow> distinct (map fst jobs) \<Longrightarrow>
   (a, Some shift) \<in> set jobs \<Longrightarrow> a < length store \<Longrightarrow>
   shift_crpix (crpix (store ! a)) shift = Inr (crpix (store1 ! a))
   \<and> store1 ! a = (store ! a)\<lparr>crpix := crpix (store1 ! a)\<rparr>"
proof (induction jobs arbitrary: store cs)
  case Nil
  then show ?case by simp
next
  case (Cons job jobs)
  obtain a' sh where job: "job = (a', sh)" by (cases job)
  from Cons.prems(2) job have dist: "distinct (map fst jobs)" and fresh: "a' \<notin> fst ` set jobs"
    by simp_all
  show ?case
  proof (cases "(a, Some shift) = job")
    case True
    with job have eq: "a' = a" "sh = Some shift" by simp_all
    from Cons.prems(1) job eq obtain c cs' where
      c: "shift_crpix (crpix (store ! a)) shift = Inr c"
      and loop: "corners_loop U first cpc jobs (store[a := (store ! a)\<lparr>crpix := c\<rparr>]) = (store1, Inr cs')"
      by (auto simp: Let_def split: prod.splits sum.splits)
    from corners_loop_untouched [OF loop] fresh eq Cons.prems(4)
    have "store1 ! a = (store ! a)\<lparr>crpix := c\<rparr>"
      by simp
    with c show ?thesis by simp
  next
    case False
    with Cons.prems(3) have mem: "(a, Some shift) \<in> set jobs"
      by simp
    with fresh have neq: "a \<noteq> a'"
      by force
    from Cons.prems(1) job obtain store' cs' where
      loop: "corners_loop U first cpc jobs store' = (store1, Inr cs')"
      and st': "store' = store \<or> (\<exists>c. store' = store[a' := (store ! a')\<lparr>crpix := c\<rparr>])"
      by (auto simp: Let_def split: option.splits prod.splits sum.splits)
    from st' neq Cons.prems(4) have same: "store' ! a = store ! a" and lt: "a < length store'"
      by auto
    from Cons.IH [OF loop dist mem lt] same show ?thesis
      by simp
  qed
qed

subsection \<open>The combined mapping\<close>

lemma fold_min_Min: "xs \<noteq> [] \<Longrightarrow> fold min (tl xs) (hd xs) = Min (set xs)"
  by (cases xs) (simp_all add: Min.set_eq_fold [symmetric])

lemma fold_max_Max: "xs \<noteq> [] \<Longrightarrow> fold max (tl xs) (hd xs) = Max (set xs)"
  by (cases xs) (simp_all add: Max.set_eq_fold [symmetric])

lemma ranges_of_bounds:
  assumes "corners \<noteq> []"
  shows "ranges_of corners =
           map (\<lambda>k. np_round (Max (set (column corners k)) - Min (set (column corners k)) + 1))
               [0..<length (hd corners)]"
proof -
  have "column corners k \<noteq> []" for k
    using assms by (simp add: column_def)
  then show ?thesis
    by (simp add: ranges_of_def low_boundary_def up_boundary_def fold_min_Min fold_max_Max)
qed


lemma combined_of_corners_result:
  assumes "combined_of_corners U first_wcs corners = Inr w"
      and "naxis first_wcs = 2 \<or> naxis first_wcs = 3"
  shows "array_shape w = rev (ranges_of corners)
       \<and> 2 \<le> length (ranges_of corners)
       \<and> take 2 (crval w) =
           [fst (pixel_to_skycoord U (real_of_int (ranges_of corners ! 0) / 2)
                   (real_of_int (ranges_of corners ! 1) / 2) first_wcs),
            snd (pixel_to_skycoord U (real_of_int (ranges_of corners ! 0) / 2)
                   (real_of_int (ranges_of corners ! 1) / 2) first_wcs)]
       \<and> (naxis first_wcs = 3 \<longrightarrow>
            crpix w = [real_of_int (ranges_of corners ! 0) / 2,
                       real_of_int (ranges_of corners ! 1) / 2, 1])
       \<and> (naxis first_wcs = 2 \<longrightarrow> crpix w = crpix first_wcs)"
  using assms
  by (auto simp: combined_of_corners_def Let_def split: if_splits sum.splits)

lemma find_combined_wcs_success:
  assumes res: "find_combined_wcs U store wcs_list ps = (store1, Inr r)"
      and wf: "\<forall>a \<in> set wcs_list. a < length store"
  shows "\<exists>corners.
           wcs_list \<noteq> [] \<and> corners \<noteq> []
         \<and> corners_loop U (hd wcs_list) (corner_pixel_coords_of (store ! hd wcs_list))
               (jobs_of wcs_list ps) store = (butlast store1, Inr corners)
         \<and> (ps = None \<longrightarrow> butlast store1 = store
               \<and> corners = concat (map (\<lambda>a. map (pixel_to_pixel U (store ! a) (store ! hd wcs_list))
                                              (corner_pixel_coords_of (store ! hd wcs_list))) wcs_list))
         \<and> r = length store \<and> length store1 = Suc (length store)
         \<and> array_shape (store1 ! r) =
               rev (map (\<lambda>k. np_round (Max (set (column corners k)) - Min (set (column corners k)) + 1))
                        [0..<length (hd corners)])
         \<and> array_shape (store1 ! r) = rev (ranges_of corners)
         \<and> 2 \<le> length (ranges_of corners)
         \<and> take 2 (crval (store1 ! r)) =
               [fst (pixel_to_skycoord U (real_of_int (ranges_of corners ! 0) / 2)
                       (real_of_int (ranges_of corners ! 1) / 2) (store1 ! hd wcs_list)),
                snd (pixel_to_skycoord U (real_of_int (ranges_of corners ! 0) / 2)
                       (real_of_int (ranges_of corners ! 1) / 2) (store1 ! hd wcs_list))]
         \<and> (naxis (store ! hd wcs_list) = 3 \<longrightarrow>
               crpix (store1 ! r) = [real_of_int (ranges_of corners ! 0) / 2,
                                     real_of_int (ranges_of corners ! 1) / 2, 1])
         \<and> (naxis (store ! hd wcs_list) = 2 \<longrightarrow>
               crpix (store1 ! r) = crpix (store1 ! hd wcs_list))"
proof -
  from res obtain first rest where wl: "wcs_list = first # rest"
    by (cases wcs_list) (auto simp: find_combined_wcs_def split: if_splits)
  let ?cpc = "corner_pixel_coords_of (store ! first)"
  from res wl have nx: "naxis (store ! first) = 2 \<or> naxis (store ! first) = 3"
    by (auto simp: find_combined_wcs_def split: if_splits)
  from res wl obtain storeL corners w where
    loop: "corners_loop U first ?cpc (jobs_of wcs_list ps) store = (storeL, Inr corners)"
    and comb: "combined_of_corners U (storeL ! first) corners = Inr w"
    and s1: "store1 = storeL @ [w]" and r: "r = length storeL"
    by (auto simp: find_combined_wcs_def split: if_splits prod.splits sum.splits)
  have len: "length storeL = length store"
    by (rule corners_loop_length [OF loop])
  from wf wl have first: "first < length storeL"
    by (simp add: len)
  have nxL: "naxis (storeL ! first) = naxis (store ! first)"
    using corners_loop_frame [OF loop, of first] by simp
  note c = combined_of_corners_result [OF comb nx [folded nxL]]
  have "length (jobs_of wcs_list ps) = length wcs_list"
    using res by (auto simp: jobs_of_def find_combined_wcs_def split: option.splits if_splits)
  with corners_loop_count [OF loop] wl have ne: "corners \<noteq> []"
    by (auto simp: corner_pixel_coords_of_def)
  have none: "butlast store1 = store
      \<and> corners = concat (map (\<lambda>a. map (pixel_to_pixel U (store ! a) (store ! first)) ?cpc) wcs_list)"
    if "ps = None"
    using loop that s1 by (auto simp: jobs_of_def corners_loop_None)
  have at_r: "(storeL @ [w]) ! length store = w"
    using len by (metis nth_append_length)
  have at_first: "(storeL @ [w]) ! first = storeL ! first"
    using first by (simp add: nth_append)
  show ?thesis
    apply (rule exI [of _ corners])
    using wl ne loop none c nxL len
    by (simp add: s1 r at_r at_first ranges_of_bounds [OF ne, symmetric])
qed

text \<open>
  Claim C1 fails on the code for 2-D mappings. Whenever the solver returns, the shape
  of the combined mapping is the reversed list of \<open>round(max - min + 1)\<close> over the
  columns of the collected corners, and its first two reference world coordinates are
  the sky position frame 0 gives the pixel \<open>(x_extent/2, y_extent/2)\<close>, as the claim says.
  For a 3-D frame 0 the reference pixel is \<open>(x_extent/2, y_extent/2, 1)\<close>; for a 2-D
  frame 0 it is left as frame 0 has it, whatever the extents: the branch for
  \<open>naxis = 2\<close> assigns \<open>crval\<close> only.
\<close>

theorem find_combined_wcs_grid:
  assumes res: "find_combined_wcs U store wcs_list ps = (store1, Inr r)"
      and wf: "\<forall>a \<in> set wcs_list. a < length store"
  shows "\<exists>corners.
           corners \<noteq> []
         \<and> corners_loop U (hd wcs_list) (corner_pixel_coords_of (store ! hd wcs_list))
               (jobs_of wcs_list ps) store = (butlast store1, Inr corners)
         \<and> array_shape (store1 ! r) =
               rev (map (\<lambda>k. np_round (Max (set (column corners k)) - Min (set (column corners k)) + 1))
                        [0..<length (hd corners)])
         \<and> array_shape (store1 ! r) = rev (ranges_of corners)
         \<and> 2 \<le> length (ranges_of corners)
         \<and> take 2 (crval (store1 ! r)) =
               [fst (pixel_to_skycoord U (real_of_int (ranges_of corners ! 0) / 2)
                       (real_of_int (ranges_of corners ! 1) / 2) (store1 ! hd wcs_list)),
                snd (pixel_to_skycoord U (real_of_int (ranges_of corners ! 0) / 2)
                       (real_of_int (ranges_of corners ! 1) / 2) (store1 ! hd wcs_list))]
         \<and> (naxis (store ! hd wcs_list) = 3 \<longrightarrow>
               crpix (store1 ! r) = [real_of_int (ranges_of corners ! 0) / 2,
                                     real_of_int (ranges_of corners ! 1) / 2, 1])
         \<and> (naxis (store ! hd wcs_list) = 2 \<longrightarrow>
               crpix (store1 ! r) = crpix (store1 ! hd wcs_list))"
  using find_combined_wcs_success [OF res wf] by blast

lemma find_combined_wcs_2d:
  "find_combined_wcs linear_utils [wcs_2d] [0] None =
     ([wcs_2d, wcs_2d\<lparr>crval := [12, 22], array_shape := [4, 4]\<rparr>], Inr 1)"
  by (simp add: solver_defs wcs_2d_def)

text \<open>
  The failing input of C1: one image mapping of 4 by 4 pixels with reference pixel
  \<open>(1, 1)\<close>. The combined grid is 4 by 4 and its reference pixel is \<open>(1, 1)\<close>, not
  \<open>(4/2, 4/2)\<close>.
\<close>

theorem find_combined_wcs_2d_reference_pixel:
  "find_combined_wcs linear_utils [wcs_2d] [0] None =
     ([wcs_2d, wcs_2d\<lparr>crval := [12, 22], array_shape := [4, 4]\<rparr>], Inr 1)
   \<and> array_shape (wcs_2d\<lparr>crval := [12, 22], array_shape := [4, 4]\<rparr>) = [4, 4]
   \<and> crpix (wcs_2d\<lparr>crval := [12, 22], array_shape := [4, 4]\<rparr>) = [1, 1]
   \<and> [1, 1] \<noteq> [4 / 2, 4 / 2 :: real]"
proof -
  have wf: "\<forall>a \<in> set [0]. a < length [wcs_2d]"
    by simp
  from find_combined_wcs_grid [OF find_combined_wcs_2d wf]
  have "naxis ([wcs_2d] ! hd [0]) = 2 \<longrightarrow>
        crpix ([wcs_2d, wcs_2d\<lparr>crval := [12, 22], array_shape := [4, 4]\<rparr>] ! 1) =
        crpix ([wcs_2d, wcs_2d\<lparr>crval := [12, 22], array_shape := [4, 4]\<rparr>] ! hd [0])"
    by blast
  then have "crpix (wcs_2d\<lparr>crval := [12, 22], array_shape := [4, 4]\<rparr>) = [1, 1]"
    by (simp add: wcs_2d_def)
  with find_combined_wcs_2d show ?thesis
    by simp
qed

text \<open>
  Claim C2 fails on the code. In a call without shifts, the corners collected for
  every exposure are the conversions of the same two pixel positions: the origin, and
  the shape of the first exposure, reversed, minus one. No other exposure's shape is
  read, and the shape of the combined grid comes from these corners.
\<close>

theorem find_combined_wcs_corners:
  assumes res: "find_combined_wcs U store wcs_list None = (store1, Inr r)"
      and wf: "\<forall>a \<in> set wcs_list. a < length store"
  shows "corners_loop U (hd wcs_list) (corner_pixel_coords_of (store ! hd wcs_list))
           (jobs_of wcs_list None) store =
           (store, Inr (concat (map (\<lambda>a. map (pixel_to_pixel U (store ! a) (store ! hd wcs_list))
               [replicate (naxis (store ! hd wcs_list)) 0,
                map (\<lambda>s. real_of_int s - 1) (rev (array_shape (store ! hd wcs_list)))]) wcs_list)))
       \<and> array_shape (store1 ! r) =
           rev (ranges_of (concat (map (\<lambda>a. map (pixel_to_pixel U (store ! a) (store ! hd wcs_list))
               [replicate (naxis (store ! hd wcs_list)) 0,
                map (\<lambda>s. real_of_int s - 1) (rev (array_shape (store ! hd wcs_list)))]) wcs_list)))"
proof -
  from find_combined_wcs_success [OF res wf] obtain corners where
    loop: "corners_loop U (hd wcs_list) (corner_pixel_coords_of (store ! hd wcs_list))
               (jobs_of wcs_list None) store = (butlast store1, Inr corners)"
    and none: "butlast store1 = store"
      "corners = concat (map (\<lambda>a. map (pixel_to_pixel U (store ! a) (store ! hd wcs_list))
                                              (corner_pixel_coords_of (store ! hd wcs_list))) wcs_list)"
    and shape: "array_shape (store1 ! r) = rev (ranges_of corners)"
    by blast
  from loop none shape show ?thesis
    by (simp add: corner_pixel_coords_of_def)
qed

lemma find_combined_wcs_pair:
  "find_combined_wcs linear_utils [wcs_2d, wcs_2d_big] [0, 1] None =
     ([wcs_2d, wcs_2d_big, wcs_2d\<lparr>crval := [12, 22], array_shape := [4, 4]\<rparr>], Inr 2)"
  by (simp add: solver_defs wcs_2d_def wcs_2d_big_def)

text \<open>
  The failing input of C2: a 4 by 4 image followed by a 10 by 10 image on the same
  mapping. Both exposures contribute the corners \<open>(0, 0)\<close> and \<open>(3, 3)\<close>; the far corner
  \<open>(9, 9)\<close> of the second exposure is not collected and the combined grid is 4 by 4.
\<close>

theorem find_combined_wcs_first_shape_corners:
  "corners_loop linear_utils 0 (corner_pixel_coords_of wcs_2d) (jobs_of [0, 1] None)
     [wcs_2d, wcs_2d_big] = ([wcs_2d, wcs_2d_big], Inr [[0, 0], [3, 3], [0, 0], [3, 3]])
   \<and> find_combined_wcs linear_utils [wcs_2d, wcs_2d_big] [0, 1] None =
     ([wcs_2d, wcs_2d_big, wcs_2d\<lparr>crval := [12, 22], array_shape := [4, 4]\<rparr>], Inr 2)
   \<and> array_shape wcs_2d_big = [10, 10]
   \<and> pixel_to_pixel linear_utils wcs_2d_big wcs_2d [10 - 1, 10 - 1] = [9, 9]"
proof -
  have wf: "\<forall>a \<in> set [0, 1]. a < length [wcs_2d, wcs_2d_big]"
    by simp
  from find_combined_wcs_corners [OF find_combined_wcs_pair wf]
  have "corners_loop linear_utils (hd [0, 1]) (corner_pixel_coords_of ([wcs_2d, wcs_2d_big] ! hd [0, 1]))
           (jobs_of [0, 1] None) [wcs_2d, wcs_2d_big] =
           ([wcs_2d, wcs_2d_big],
            Inr (concat (map (\<lambda>a. map (pixel_to_pixel linear_utils ([wcs_2d, wcs_2d_big] ! a)
                                          ([wcs_2d, wcs_2d_big] ! hd [0, 1]))
               [replicate (naxis ([wcs_2d, wcs_2d_big] ! hd [0, 1])) 0,
                map (\<lambda>s. real_of_int s - 1) (rev (array_shape ([wcs_2d, wcs_2d_big] ! hd [0, 1])))])
               [0, 1])))"
    by blast
  then have "corners_loop linear_utils 0 (corner_pixel_coords_of wcs_2d) (jobs_of [0, 1] None)
     [wcs_2d, wcs_2d_big] = ([wcs_2d, wcs_2d_big], Inr [[0, 0], [3, 3], [0, 0], [3, 3]])"
    by (simp add: wcs_2d_def wcs_2d_big_def linear_utils_def numeral_2_eq_2 upt_rec)
  with find_combined_wcs_pair show ?thesis
    by (simp add: wcs_2d_def wcs_2d_big_def linear_utils_def numeral_2_eq_2 upt_rec)
qed

text \<open>
  Claim C3 fails on the code. After a call with shifts that returns, the caller's own
  mapping objects have changed: the object at \<open>wcs_list[i]\<close> is the one the caller
  passed with its reference pixel replaced by the shifted one, that is, for a shift of
  as many values as the reference pixel has, by \<open>crpix - pixel_shifts[i]\<close>. (The
  mappings are told apart by their addresses, which are distinct.)
\<close>

theorem find_combined_wcs_shifts_in_place:
  assumes res: "find_combined_wcs U store wcs_list (Some shifts) = (store1, Inr r)"
      and dist: "distinct wcs_list" and wf: "\<forall>a \<in> set wcs_list. a < length store"
      and i: "i < length wcs_list"
  shows "shift_crpix (crpix (store ! (wcs_list ! i))) (shifts ! i) = Inr (crpix (store1 ! (wcs_list ! i)))
       \<and> store1 ! (wcs_list ! i) = (store ! (wcs_list ! i))\<lparr>crpix := crpix (store1 ! (wcs_list ! i))\<rparr>
       \<and> (length (shifts ! i) = length (crpix (store ! (wcs_list ! i))) \<longrightarrow>
            crpix (store1 ! (wcs_list ! i)) = map2 (-) (crpix (store ! (wcs_list ! i))) (shifts ! i))"
proof -
  from res have len: "length shifts = length wcs_list"
    by (auto simp: find_combined_wcs_def split: if_splits)
  from res obtain first rest where wl: "wcs_list = first # rest"
    by (cases wcs_list) (auto simp: find_combined_wcs_def split: if_splits)
  let ?cpc = "corner_pixel_coords_of (store ! first)"
  let ?jobs = "zip wcs_list (map Some shifts)"
  from res wl obtain storeL corners w where
    loop: "corners_loop U first ?cpc ?jobs store = (storeL, Inr corners)"
    and s1: "store1 = storeL @ [w]"
    by (auto simp: find_combined_wcs_def jobs_of_def split: if_splits prod.splits sum.splits)
  have lenL: "length storeL = length store"
    by (rule corners_loop_length [OF loop])
  let ?a = "wcs_list ! i"
  have a: "?a < length store"
    using wf i by simp
  have d: "distinct (map fst ?jobs)"
    using dist len by (simp add: map_fst_zip)
  have mem: "(?a, Some (shifts ! i)) \<in> set ?jobs"
    using i len by (auto simp: in_set_zip intro!: exI [of _ i])
  have at: "store1 ! ?a = storeL ! ?a"
    using a lenL by (simp add: s1 nth_append)
  from corners_loop_shifted [OF loop d mem a]
  have sh: "shift_crpix (crpix (store ! ?a)) (shifts ! i) = Inr (crpix (store1 ! ?a))"
    and obj: "store1 ! ?a = (store ! ?a)\<lparr>crpix := crpix (store1 ! ?a)\<rparr>"
    by (simp_all add: at)
  from sh have "length (shifts ! i) = length (crpix (store ! ?a)) \<longrightarrow>
      crpix (store1 ! ?a) = map2 (-) (crpix (store ! ?a)) (shifts ! i)"
    by (auto simp: shift_crpix_def)
  with sh obj show ?thesis by blast
qed

lemma find_combined_wcs_shifted:
  "find_combined_wcs linear_utils [wcs_2d] [0] (Some [[1, 1]]) =
     ([wcs_2d\<lparr>crpix := [0, 0]\<rparr>,
       wcs_2d\<lparr>crpix := [0, 0], crval := [13, 23], array_shape := [4, 4]\<rparr>], Inr 1)"
  by (simp add: solver_defs wcs_2d_def)

text \<open>
  The failing input of C3: after a call with the shift \<open>(1, 1)\<close>, the caller's mapping,
  at address 0 of the store, has the reference pixel \<open>(0, 0)\<close> instead of \<open>(1, 1)\<close>.
\<close>

theorem find_combined_wcs_mutates_input:
  "find_combined_wcs linear_utils [wcs_2d] [0] (Some [[1, 1]]) =
     ([wcs_2d\<lparr>crpix := [0, 0]\<rparr>,
       wcs_2d\<lparr>crpix := [0, 0], crval := [13, 23], array_shape := [4, 4]\<rparr>], Inr 1)
   \<and> crpix wcs_2d = [1, 1]
   \<and> crpix (fst (find_combined_wcs linear_utils [wcs_2d] [0] (Some [[1, 1]])) ! 0) = [0, 0]
   \<and> fst (find_combined_wcs linear_utils [wcs_2d] [0] (Some [[1, 1]])) ! 0 \<noteq> wcs_2d"
proof -
  let ?store1 = "[wcs_2d\<lparr>crpix := [0, 0]\<rparr>,
       wcs_2d\<lparr>crpix := [0, 0], crval := [13, 23], array_shape := [4, 4]\<rparr>]"
  have wf: "\<forall>a \<in> set [0]. a < length [wcs_2d]" and d: "distinct [0 :: nat]"
    and i: "0 < length [0 :: nat]"
    by simp_all
  from find_combined_wcs_shifts_in_place [OF find_combined_wcs_shifted d wf i]
  have "crpix (?store1 ! 0) = [0, 0]"
    by (simp add: wcs_2d_def)
  moreover have "crpix wcs_2d = [1, 1]"
    by (simp add: wcs_2d_def)
  moreover have "wcs_2d\<lparr>crpix := [0, 0]\<rparr> \<noteq> wcs_2d"
    by (simp add: wcs_2d_def)
  ultimately show ?thesis
    by (simp add: find_combined_wcs_shifted)
qed

subsection \<open>The validation errors of the solver\<close>




lemma find_combined_wcs_None_store:
  "find_combined_wcs U store wcs_list None = (store1, Inl e) \<Longrightarrow> store1 = store"
  by (auto simp: find_combined_wcs_def jobs_of_def corners_loop_None
           split: list.splits if_splits sum.splits prod.splits)

lemma find_combined_wcs_A:
  "find_combined_wcs linear_utils [wcs_A] [0] None = ([wcs_A, wcs_A_combined], Inr 1)"
  by (simp add: find_combined_wcs_def wcs_A_def wcs_A_combined_def linear_utils_def
      corner_pixel_coords_of_def jobs_of_def combined_of_corners_def ranges_of_def
      low_boundary_def up_boundary_def column_def np_round_def spectral_step_def Let_def
      numeral_3_eq_3 upt_rec)


section \<open>Reprojection and accumulation: results\<close>



lemma prepare_exposure_shifts [simp]:
  "prepare_exposure L (opts\<lparr>pixel_shifts := ps\<rparr>) sc f = prepare_exposure L opts sc f"
  by (simp add: prepare_exposure_def Let_def split: sum.split prod.split)

lemma combine_step_shifts [simp]:
  "combine_step L (opts\<lparr>pixel_shifts := ps\<rparr>) wc ws i x acc = combine_step L opts wc ws i x acc"
  by (simp add: combine_step_def)

lemma combine_loop_shifts [simp]:
  "combine_loop L (opts\<lparr>pixel_shifts := ps\<rparr>) wc ws xs i acc = combine_loop L opts wc ws xs i acc"
  by (induction xs arbitrary: i acc) simp_all

lemma finish_shifts [simp]:
  "finish image_list (opts\<lparr>pixel_shifts := ps\<rparr>) wc d = finish image_list opts wc d"
  by (simp add: finish_def last_header_def split: option.split)

lemma combined_grid_shifts:
  assumes "\<not> ignore_wcs opts"
  shows "combined_grid L image_list (opts\<lparr>pixel_shifts := Some shifts\<rparr>) =
           (if length shifts \<noteq> length image_list
            then Inl (ValueError ''Pixel_shift does not match the number of images!'')
            else combined_grid L image_list (opts\<lparr>pixel_shifts := None\<rparr>))"
  using assms by (simp add: combined_grid_def exposure_mappings_def)

text \<open>
  Claim C4. With \<^verbatim>\<open>ignore_wcs\<close> false, \<open>pixel_shifts\<close> is only checked for its length:
  a call with shifts of the wrong length raises the validation error, and a call with
  shifts of the right length gives exactly what the same call with
  \<^verbatim>\<open>pixel_shifts=None\<close> gives: the same mappings of the exposures and the same combined
  grid (the shifts reach neither \<open>find_combined_wcs\<close> nor any mapping), the same number
  of reprojections and the same result.
\<close>

theorem data_combine_ignores_pixel_shifts:
  assumes "\<not> ignore_wcs opts"
  shows "data_combine L image_list (opts\<lparr>pixel_shifts := Some shifts\<rparr>) =
           (if length shifts \<noteq> length image_list
            then (0, Inl (ValueError ''Pixel_shift does not match the number of images!''))
            else data_combine L image_list (opts\<lparr>pixel_shifts := None\<rparr>))
       \<and> (length shifts = length image_list \<longrightarrow>
            combined_grid L image_list (opts\<lparr>pixel_shifts := Some shifts\<rparr>) =
            combined_grid L image_list (opts\<lparr>pixel_shifts := None\<rparr>))"
  using assms
  by (simp add: data_combine_def accumulate_def combined_grid_shifts Let_def
           split: sum.split prod.split option.split)

text \<open>
  The caller \<open>combine_eris_ifu\<close> hands the estimated shifts to \<open>data_combine\<close> with
  \<^verbatim>\<open>ignore_wcs\<close> false, so the drift table it is given has no effect on what the call
  ends with.
\<close>

lemma data_combine_matching_shifts:
  assumes "\<not> ignore_wcs opts" and "length shifts = length image_list"
  shows "data_combine L image_list (opts\<lparr>pixel_shifts := Some shifts\<rparr>) =
         data_combine L image_list (opts\<lparr>pixel_shifts := None\<rparr>)"
  using assms
  by (simp add: data_combine_def accumulate_def combined_grid_shifts Let_def
           split: sum.split prod.split option.split)

lemma combine_eris_ifu_ignores_drifts:
  "combine_eris_ifu L image_list (Some dat) outfile = combine_eris_ifu L image_list None outfile"
proof (cases "compute_weighting_eris image_list")
  case (Inl e)
  then show ?thesis by (simp add: combine_eris_ifu_def)
next
  case (Inr weights)
  let ?opts = "default_options\<lparr>weighting := Some weights, savefile := outfile\<rparr>"
  have off: "\<not> ignore_wcs ?opts"
    by (simp add: default_options_def)
  have call: "data_combine L image_list
        (default_options\<lparr>weighting := Some weights,
                         pixel_shifts := Some (map (\<lambda>d. [fst d, snd d]) drifts),
                         savefile := outfile\<rparr>) =
      data_combine L image_list (?opts\<lparr>pixel_shifts := None\<rparr>)"
    if "length drifts = length image_list" for drifts :: "(real \<times> real) list"
    using data_combine_matching_shifts [OF off, of "map (\<lambda>d. [fst d, snd d]) drifts" image_list L] that
    by (simp add: default_options_def)
  show ?thesis
  proof (cases "compute_eris_offset image_list None")
    case (Inl e)
    with compute_eris_offset_table_error [of image_list dat e] Inr show ?thesis
      by (simp add: combine_eris_ifu_def)
  next
    case r: (Inr res)
    obtain offs out where res: "res = (offs, out)" by (cases res)
    obtain offs' out' where
      t: "compute_eris_offset image_list (Some (DriftTable dat)) = Inr (offs', out')"
      using compute_eris_offset_table_error [of image_list dat] r
      by (cases "compute_eris_offset image_list (Some (DriftTable dat))") auto
    from compute_eris_offset_length [OF t] compute_eris_offset_length [OF r [unfolded res]]
    show ?thesis
      using Inr r res t by (simp add: combine_eris_ifu_def call)
  qed
qed

text \<open>
  Claim C9 fails on the code. Without a save path \<open>data_combine\<close> never returns: every
  call ends with an error, and a call whose combination has succeeded ends with the
  \<^verbatim>\<open>NameError\<close> of \<^verbatim>\<open>return data_combined, error_combined\<close>, after all its reprojections.
\<close>

theorem data_combine_return_path:
  assumes "savefile opts = None"
  shows "(\<exists>e. snd (data_combine L image_list opts) = Inl e)
       \<and> (\<forall>calls r. accumulate L image_list opts = (calls, Inr r) \<longrightarrow>
            data_combine L image_list opts = (calls, Inl (NameError ''error_combined'')))"
  using assms
  by (auto simp: data_combine_def finish_def split: prod.splits sum.splits)

lemma combined_grid_A:
  "combined_grid plain_library [file_A] default_options = Inr ([wcs_A], wcs_A_combined)"
  using find_combined_wcs_A
  by (simp add: combined_grid_def exposure_mappings_def default_options_def plain_library_def
      file_A_def)

lemma accumulate_A:
  "\<exists>acc. accumulate plain_library [file_A] default_options = (2, Inr (wcs_A_combined, acc))"
  using combined_grid_A
  by (simp add: accumulate_def combine_step_def prepare_exposure_def read_mask_def
      reconcile_channels_def slice_stop_def subtract_channel_median_def default_options_def
      file_A_def wcs_A_combined_def wcs_A_def plain_library_def Let_def)

theorem data_combine_return_path_witness:
  "savefile default_options = None
   \<and> data_combine plain_library [file_A] default_options = (2, Inl (NameError ''error_combined''))"
proof -
  have none: "savefile default_options = None"
    by (simp add: default_options_def)
  from accumulate_A obtain acc where
    "accumulate plain_library [file_A] default_options = (2, Inr (wcs_A_combined, acc))"
    by blast
  with data_combine_return_path [OF none, of plain_library "[file_A]"] none
  show ?thesis by blast
qed

lemma mock_wcs_list_length:
  "mock_wcs_list w shifts = Inr ws \<Longrightarrow> length ws = length shifts"
  by (induction shifts arbitrary: ws) (auto split: sum.splits)

lemma exposure_mappings_length:
  assumes "exposure_mappings image_list opts = Inr (store, wcs_list)"
      and "case pixel_shifts opts of None \<Rightarrow> True | Some shifts \<Rightarrow> length shifts = length image_list"
  shows "length wcs_list = length image_list"
  using assms
  by (auto simp: exposure_mappings_def mock_wcs_list_length
           split: if_splits list.splits option.splits sum.splits)

lemma combined_grid_length:
  assumes "combined_grid L image_list opts = Inr (wcs_list, wcs_combined)"
  shows "length wcs_list = length image_list"
proof -
  from assms obtain store refs where
    em: "exposure_mappings image_list opts = Inr (store, refs)"
    and len: "length wcs_list = length refs"
    and ok: "case pixel_shifts opts of None \<Rightarrow> True | Some shifts \<Rightarrow> length shifts = length image_list"
    by (auto simp: combined_grid_def split: if_splits sum.splits prod.splits option.splits)
  from exposure_mappings_length [OF em ok] len show ?thesis by simp
qed

lemma combine_step_coverage:
  assumes "combine_step L opts wc weights i x acc = (calls, Inr acc')"
  shows "\<exists>m. prepare_exposure L opts (array_shape wc) (fst x) = Inr m
           \<and> (\<forall>idx. snd acc' idx = snd acc idx + (1 - mask_reprojected_of L (snd x) wc m idx))"
  using assms
  by (auto simp: combine_step_def Let_def split: sum.splits if_splits)

lemma combine_loop_coverage:
  "combine_loop L opts wc weights xs i acc = (calls, Inr acc') \<Longrightarrow>
   \<exists>ms. length ms = length xs
      \<and> (\<forall>k<length xs. prepare_exposure L opts (array_shape wc) (fst (xs ! k)) = Inr (ms ! k))
      \<and> (\<forall>idx. snd acc' idx =
             snd acc idx + (\<Sum>k<length xs. 1 - mask_reprojected_of L (snd (xs ! k)) wc (ms ! k) idx))"
proof (induction xs arbitrary: i acc calls)
  case Nil
  then show ?case by simp
next
  case (Cons x xs)
  from Cons.prems obtain c1 acc1 c2 where
    step: "combine_step L opts wc weights i x acc = (c1, Inr acc1)"
    and rest: "combine_loop L opts wc weights xs (Suc i) acc1 = (c2, Inr acc')"
    by (auto split: prod.splits sum.splits)
  from combine_step_coverage [OF step] obtain m where
    m: "prepare_exposure L opts (array_shape wc) (fst x) = Inr m"
    and a1: "\<And>idx. snd acc1 idx = snd acc idx + (1 - mask_reprojected_of L (snd x) wc m idx)"
    by blast
  from Cons.IH [OF rest] obtain ms where
    len: "length ms = length xs"
    and prep: "\<And>k. k < length xs \<Longrightarrow>
                 prepare_exposure L opts (array_shape wc) (fst (xs ! k)) = Inr (ms ! k)"
    and cov: "\<And>idx. snd acc' idx =
                 snd acc1 idx + (\<Sum>k<length xs. 1 - mask_reprojected_of L (snd (xs ! k)) wc (ms ! k) idx)"
    by blast
  have "length (m # ms) = length (x # xs)"
    using len by simp
  moreover have "\<forall>k<length (x # xs).
      prepare_exposure L opts (array_shape wc) (fst ((x # xs) ! k)) = Inr ((m # ms) ! k)"
    using m prep by (auto simp: nth_Cons split: nat.splits)
  moreover have "\<forall>idx. snd acc' idx = snd acc idx +
      (\<Sum>k<length (x # xs). 1 - mask_reprojected_of L (snd ((x # xs) ! k)) wc ((m # ms) ! k) idx)"
    unfolding length_Cons sum.lessThan_Suc_shift
    by (simp add: cov a1)
  ultimately show ?case by blast
qed

text \<open>
  Claim C6. The coverage starts at a positive epsilon in every cell and every exposure
  adds one minus its resampled mask: when the accumulation ends, the coverage of a
  cell is epsilon plus the sum of these terms over the exposures. So when the
  resampled mask values of the run lie in \<open>[0, 1]\<close>, every cell of the coverage, the
  denominator of the final division, is at least epsilon and strictly positive.
\<close>

theorem coverage_positive:
  assumes "accumulate L image_list opts = (calls, Inr (wcs_combined, data_sum, coverage))"
  shows "0 < coverage_epsilon
       \<and> (\<exists>wcs_list ms.
             combined_grid L image_list opts = Inr (wcs_list, wcs_combined)
           \<and> length wcs_list = length image_list \<and> length ms = length image_list
           \<and> (\<forall>k<length image_list.
                 prepare_exposure L opts (array_shape wcs_combined) (image_list ! k) = Inr (ms ! k))
           \<and> (\<forall>idx. coverage idx = coverage_epsilon +
                 (\<Sum>k<length image_list.
                     1 - mask_reprojected_of L (wcs_list ! k) wcs_combined (ms ! k) idx))
           \<and> ((\<forall>k<length image_list. \<forall>idx.
                   0 \<le> mask_reprojected_of L (wcs_list ! k) wcs_combined (ms ! k) idx
                 \<and> mask_reprojected_of L (wcs_list ! k) wcs_combined (ms ! k) idx \<le> 1)
                \<longrightarrow> (\<forall>idx. coverage_epsilon \<le> coverage idx \<and> 0 < coverage idx)))"
proof -
  have eps: "0 < coverage_epsilon"
    by (simp add: coverage_epsilon_def)
  from assms obtain wcs_list weights where
    grid: "combined_grid L image_list opts = Inr (wcs_list, wcs_combined)"
    and loop: "combine_loop L opts wcs_combined weights (zip image_list wcs_list) 0
                 ((\<lambda>idx. 0), (\<lambda>idx. coverage_epsilon)) = (calls, Inr (data_sum, coverage))"
    by (auto simp: accumulate_def Let_def split: sum.splits prod.splits)
  have len: "length wcs_list = length image_list"
    by (rule combined_grid_length [OF grid])
  from combine_loop_coverage [OF loop] len obtain ms where
    lms: "length ms = length image_list"
    and prep: "\<forall>k<length image_list.
        prepare_exposure L opts (array_shape wcs_combined) (image_list ! k) = Inr (ms ! k)"
    and cov: "\<forall>idx. coverage idx = coverage_epsilon +
        (\<Sum>k<length image_list. 1 - mask_reprojected_of L (wcs_list ! k) wcs_combined (ms ! k) idx)"
    by auto
  have pos: "\<forall>idx. coverage_epsilon \<le> coverage idx \<and> 0 < coverage idx"
    if unit: "\<forall>k<length image_list. \<forall>idx.
                0 \<le> mask_reprojected_of L (wcs_list ! k) wcs_combined (ms ! k) idx
              \<and> mask_reprojected_of L (wcs_list ! k) wcs_combined (ms ! k) idx \<le> 1"
  proof
    fix idx
    have "0 \<le> (\<Sum>k<length image_list.
              1 - mask_reprojected_of L (wcs_list ! k) wcs_combined (ms ! k) idx)"
      using unit by (intro sum_nonneg) simp
    with cov eps show "coverage_epsilon \<le> coverage idx \<and> 0 < coverage idx"
      by simp
  qed
  from eps grid len lms prep cov pos show ?thesis
    by blast
qed

theorem coverage_positive_witness:
  "\<exists>calls wcs_combined data_sum coverage.
      accumulate plain_library [file_A] default_options = (calls, Inr (wcs_combined, data_sum, coverage))
    \<and> (\<forall>idx. coverage_epsilon \<le> coverage idx \<and> 0 < coverage idx)"
proof -
  from accumulate_A obtain data_sum coverage where
    acc: "accumulate plain_library [file_A] default_options = (2, Inr (wcs_A_combined, data_sum, coverage))"
    by force
  have unit: "0 \<le> mask_reprojected_of plain_library w wc m idx
            \<and> mask_reprojected_of plain_library w wc m idx \<le> 1" for w wc m idx
    by (simp add: mask_reprojected_of_def plain_library_def)
  from coverage_positive [OF acc] unit
  have "\<forall>idx. coverage_epsilon \<le> coverage idx \<and> 0 < coverage idx"
    by blast
  with acc show ?thesis by blast
qed

theorem data_combine_ignores_pixel_shifts_witness:
  "\<not> ignore_wcs default_options
   \<and> data_combine plain_library [file_A] (default_options\<lparr>pixel_shifts := Some [[5, 7]]\<rparr>) =
       data_combine plain_library [file_A] (default_options\<lparr>pixel_shifts := None\<rparr>)
   \<and> data_combine plain_library [file_A] (default_options\<lparr>pixel_shifts := Some []\<rparr>) =
       (0, Inl (ValueError ''Pixel_shift does not match the number of images!''))"
proof -
  have off: "\<not> ignore_wcs default_options"
    by (simp add: default_options_def)
  show ?thesis
    using off
      data_combine_ignores_pixel_shifts [OF off, of plain_library "[file_A]" "[[5, 7]]"]
      data_combine_ignores_pixel_shifts [OF off, of plain_library "[file_A]" "[]"]
    by simp
qed





section \<open>Filling a masked region: results\<close>

subsection \<open>The slices of the loop are the clamped neighbourhood\<close>










subsection \<open>One pass over the masked cells\<close>











subsection \<open>Progress and termination\<close>













subsection \<open>The result of the loop\<close>











end
